theory Spec2Isabelle
  imports Main "HOL-Library.Word"
begin

section \<open>JavaScript values used by the main process\<close>

text \<open>
  The main process (\<^verbatim>\<open>src/main/index.ts\<close>) exists in three revisions: the oldest one
  (segment files, no extraction lock), the disk revision (segment files, two-pass
  extraction, extraction lock) and the memory revision (in-memory chunk buffer). The
  definitions below follow the memory revision; the disk revision's functions carry the
  suffix \<open>_disk\<close>, the oldest revision's the suffix \<open>_v0\<close>.

  Numbers are modelled as \<open>int\<close>: every number the modelled code computes is an integer
  (byte counts, millisecond time stamps, parsed settings), on which IEEE doubles are exact
  below \<open>2^53\<close>. \<open>NaN\<close> is \<open>None\<close>.
\<close>

type_synonym number = "int option"

definition decimal_digits :: string where
  "decimal_digits = ''0123456789''"

text \<open>\<^verbatim>\<open>String(n)\<close> and \<^verbatim>\<open>`${n}`\<close> for an integer \<open>n\<close>.\<close>

fun decimal :: "nat \<Rightarrow> string" where
  "decimal n = (if 10 \<le> n then decimal (n div 10) else []) @ [decimal_digits ! (n mod 10)]"

declare decimal.simps [simp del]

definition string_of_int :: "int \<Rightarrow> string" where
  "string_of_int k = (if 0 \<le> k then decimal (nat k) else CHR ''-'' # decimal (nat (- k)))"

definition string_of_number :: "number \<Rightarrow> string" where
  "string_of_number x = (case x of None \<Rightarrow> ''NaN'' | Some i \<Rightarrow> string_of_int i)"

definition is_ws :: "char \<Rightarrow> bool" where
  "is_ws c = (c \<in> set [CHR '' '', CHR 0x09, CHR 0x0A, CHR 0x0B, CHR 0x0C, CHR 0x0D])"

definition digit_value :: "char \<Rightarrow> nat option" where
  "digit_value c =
     (let k = (of_char c :: nat) in
      if 48 \<le> k \<and> k \<le> 57 then Some (k - 48)
      else if 97 \<le> k \<and> k \<le> 122 then Some (k - 87)
      else if 65 \<le> k \<and> k \<le> 90 then Some (k - 55)
      else None)"

definition is_digit :: "nat \<Rightarrow> char \<Rightarrow> bool" where
  "is_digit radix c = (case digit_value c of None \<Rightarrow> False | Some d \<Rightarrow> d < radix)"

text \<open>
  \<^verbatim>\<open>parseInt(s)\<close> with no radix: leading white space is skipped, a sign is read, a
  \<^verbatim>\<open>0x\<close> prefix selects radix 16, and the longest prefix of digits is converted; with
  no digit the result is \<open>NaN\<close>.
\<close>

definition parseInt :: "string \<Rightarrow> number" where
  "parseInt s =
     (let t = dropWhile is_ws s;
          neg = (t \<noteq> [] \<and> hd t = CHR ''-'');
          u = (if t \<noteq> [] \<and> (hd t = CHR ''-'' \<or> hd t = CHR ''+'') then tl t else t);
          hex = (take 2 u = ''0x'' \<or> take 2 u = ''0X'');
          radix = (if hex then 16 else 10);
          v = (if hex then drop 2 u else u);
          ds = takeWhile (is_digit radix) v;
          m = foldl (\<lambda>a c. a * radix + the (digit_value c)) 0 ds
      in if ds = [] then None else Some (if neg then - int m else int m))"

text \<open>\<^verbatim>\<open>x || d\<close> on a number: \<open>NaN\<close> and \<open>0\<close> are falsy.\<close>

definition or_default :: "number \<Rightarrow> int \<Rightarrow> int" where
  "or_default x d = (case x of None \<Rightarrow> d | Some i \<Rightarrow> if i = 0 then d else i)"

text \<open>\<^verbatim>\<open>s.includes(pat)\<close> on strings.\<close>

fun str_includes :: "string \<Rightarrow> string \<Rightarrow> bool" where
  "str_includes [] pat = (pat = [])"
| "str_includes (c # cs) pat = (take (length pat) (c # cs) = pat \<or> str_includes cs pat)"

section \<open>Configuration\<close>

record Config =
  fps :: string
  codec :: string
  bitrate :: string
  bufferTime :: string
  outputFolder :: string
  shortcut :: string
  autoStart :: bool
  autoRecord :: bool
  audioDevice :: string
  systemAudioDevice :: string

definition default_config :: Config where
  "default_config =
     \<lparr> fps = ''60'', codec = ''h264_nvenc'', bitrate = ''15'', bufferTime = ''300'',
       outputFolder = '''', shortcut = ''Alt+F10'', autoStart = False, autoRecord = True,
       audioDevice = ''Default'', systemAudioDevice = ''Default'' \<rparr>"

section \<open>The Argument Planner\<close>

text \<open>
  \<^verbatim>\<open>startRecording\<close> builds the recorder's command line inside the continuation of
  \<^verbatim>\<open>fetchDevices()\<close>, from \<^verbatim>\<open>config\<close> and the detected devices. The pushes before the
  comment \<^verbatim>\<open>// Map video\<close> are \<open>input_args\<close>, the mapping pushes are \<open>map_args\<close>, the
  final push is \<open>output_args\<close>.
\<close>

text \<open>
  \<^verbatim>\<open>let mappedMic = config.audioDevice; if (mappedMic === 'Default') mappedMic =
  currentDevices[0] || 'None';\<close>
\<close>

definition mappedMic :: "Config \<Rightarrow> string list \<Rightarrow> string" where
  "mappedMic cfg currentDevices =
     (if audioDevice cfg = ''Default''
      then (case currentDevices of [] \<Rightarrow> ''None'' | d # _ \<Rightarrow> if d = [] then ''None'' else d)
      else audioDevice cfg)"

text \<open>\<^verbatim>\<open>mappedMic && mappedMic !== 'None' && currentDevices.includes(mappedMic)\<close>\<close>

definition micOk :: "Config \<Rightarrow> string list \<Rightarrow> bool" where
  "micOk cfg currentDevices =
     (let m = mappedMic cfg currentDevices
      in m \<noteq> [] \<and> m \<noteq> ''None'' \<and> m \<in> set currentDevices)"

definition audioInputs :: "Config \<Rightarrow> string list \<Rightarrow> nat" where
  "audioInputs cfg currentDevices =
     (let useSystemAudio = (systemAudioDevice cfg \<noteq> ''None'');
          n = (if useSystemAudio then 1 else 0)
      in if micOk cfg currentDevices then n + 1 else n)"

definition screen_input :: "Config \<Rightarrow> string" where
  "screen_input cfg =
     ''ddagrab=framerate='' @ string_of_int (or_default (parseInt (fps cfg)) 60) @ '':draw_mouse=1''"

definition input_args :: "Config \<Rightarrow> string list \<Rightarrow> string list" where
  "input_args cfg currentDevices =
     (let useSystemAudio = (systemAudioDevice cfg \<noteq> ''None'')
      in [''-y'']
         @ (if useSystemAudio
            then [''-thread_queue_size'', ''4096'', ''-f'', ''webm'', ''-i'', ''pipe:0'']
            else [])
         @ [''-init_hw_device'', ''d3d11va=dx11'', ''-filter_hw_device'', ''dx11'',
            ''-thread_queue_size'', ''4096'', ''-f'', ''lavfi'', ''-i'', screen_input cfg]
         @ (if micOk cfg currentDevices
            then [''-thread_queue_size'', ''4096'', ''-f'', ''dshow'',
                  ''-i'', ''audio='' @ mappedMic cfg currentDevices]
            else []))"

definition map_args :: "Config \<Rightarrow> string list \<Rightarrow> string list" where
  "map_args cfg currentDevices =
     (let useSystemAudio = (systemAudioDevice cfg \<noteq> ''None'');
          videoInputIndex = (if useSystemAudio then 1 else 0);
          sysAudioInputIndex = (if useSystemAudio then 0 else - 1);
          micInputIndex = (if useSystemAudio then 2 else 1);
          n = audioInputs cfg currentDevices
      in [''-map'', string_of_int videoInputIndex @ '':v'']
         @ (if n = 1 \<and> useSystemAudio
            then [''-map'', string_of_int sysAudioInputIndex @ '':a'',
                  ''-c:a'', ''aac'', ''-b:a'', ''256k'']
            else if n = 1 \<and> \<not> useSystemAudio
            then [''-map'', string_of_int micInputIndex @ '':a'',
                  ''-c:a'', ''aac'', ''-b:a'', ''256k'']
            else if n = 2
            then [''-filter_complex'',
                  ''['' @ string_of_int sysAudioInputIndex @ '':a]['' @ string_of_int micInputIndex
                    @ '':a]amix=inputs=2:duration=longest[aout]'',
                  ''-map'', ''[aout]'', ''-c:a'', ''aac'', ''-b:a'', ''256k'']
            else []))"

definition output_args :: "Config \<Rightarrow> string list" where
  "output_args cfg =
     [''-vf'', ''hwdownload,format=bgra'', ''-c:v'', codec cfg]
     @ (if str_includes (codec cfg) ''nvenc'' then [''-preset'', ''p5'']
        else [''-preset'', ''ultrafast''])
     @ [''-b:v'', bitrate cfg @ ''M'', ''-vsync'', ''cfr'',
        ''-g'', string_of_int (or_default (parseInt (fps cfg)) 60 * 2),
        ''-f'', ''mpegts'', ''-mpegts_flags'', ''+resend_headers'', ''pipe:1'']"

definition build_args :: "Config \<Rightarrow> string list \<Rightarrow> string list" where
  "build_args cfg currentDevices =
     input_args cfg currentDevices @ map_args cfg currentDevices @ output_args cfg"

subsection \<open>The disk revision and the oldest revision\<close>

text \<open>
  Both capture the screen with \<^verbatim>\<open>gdigrab\<close> and write segment files; they differ in the
  segment duration only (\<^verbatim>\<open>SEGMENT_DURATION = 5\<close> against the literal \<^verbatim>\<open>'30'\<close>).
  \<open>segmentTemplate\<close> is \<^verbatim>\<open>path.join(tempDir, `buffer_${timeFormat}.ts`)\<close>.
\<close>

definition input_args_disk :: "Config \<Rightarrow> string list \<Rightarrow> string list" where
  "input_args_disk cfg currentDevices =
     (let useSystemAudio = (systemAudioDevice cfg \<noteq> ''None'')
      in [''-y'']
         @ (if useSystemAudio
            then [''-thread_queue_size'', ''4096'', ''-f'', ''s16le'', ''-ar'', ''48000'',
                  ''-ac'', ''2'', ''-i'', ''pipe:0'']
            else [])
         @ [''-thread_queue_size'', ''1024'', ''-f'', ''gdigrab'', ''-framerate'', fps cfg,
            ''-draw_mouse'', ''1'', ''-i'', ''desktop'']
         @ (if micOk cfg currentDevices
            then [''-thread_queue_size'', ''1024'', ''-f'', ''dshow'',
                  ''-i'', ''audio='' @ mappedMic cfg currentDevices]
            else []))"

definition map_args_disk :: "Config \<Rightarrow> string list \<Rightarrow> string list" where
  "map_args_disk cfg currentDevices =
     (let useSystemAudio = (systemAudioDevice cfg \<noteq> ''None'');
          videoInputIndex = (if useSystemAudio then 1 else 0);
          sysAudioInputIndex = (if useSystemAudio then 0 else - 1);
          micInputIndex = (if useSystemAudio then 2 else 1);
          n = audioInputs cfg currentDevices
      in [''-map'', string_of_int videoInputIndex @ '':v'']
         @ (if n = 1 \<and> useSystemAudio
            then [''-map'', string_of_int sysAudioInputIndex @ '':a'',
                  ''-c:a'', ''aac'', ''-b:a'', ''192k'', ''-af'', ''aresample=async=1'']
            else if n = 1 \<and> \<not> useSystemAudio
            then [''-map'', string_of_int micInputIndex @ '':a'',
                  ''-c:a'', ''aac'', ''-b:a'', ''192k'', ''-af'', ''aresample=async=1'']
            else if n = 2
            then [''-filter_complex'',
                  ''['' @ string_of_int sysAudioInputIndex @ '':a]['' @ string_of_int micInputIndex
                    @ '':a]amix=inputs=2:duration=longest,aresample=async=1[aout]'',
                  ''-map'', ''[aout]'', ''-c:a'', ''aac'', ''-b:a'', ''192k'']
            else []))"

definition SEGMENT_DURATION :: int where
  "SEGMENT_DURATION = 5"

definition output_args_disk :: "string \<Rightarrow> Config \<Rightarrow> string \<Rightarrow> string list" where
  "output_args_disk segment_time cfg segmentTemplate =
     [''-vf'', ''fps='' @ fps cfg, ''-c:v'', codec cfg]
     @ (if str_includes (codec cfg) ''nvenc'' then [''-preset'', ''p5'']
        else [''-preset'', ''ultrafast''])
     @ [''-b:v'', bitrate cfg @ ''M'', ''-f'', ''segment'', ''-segment_time'', segment_time,
        ''-strftime'', ''1'', segmentTemplate]"

definition build_args_disk :: "Config \<Rightarrow> string list \<Rightarrow> string \<Rightarrow> string list" where
  "build_args_disk cfg currentDevices segmentTemplate =
     input_args_disk cfg currentDevices @ map_args_disk cfg currentDevices
     @ output_args_disk (string_of_int SEGMENT_DURATION) cfg segmentTemplate"

definition build_args_v0 :: "Config \<Rightarrow> string list \<Rightarrow> string \<Rightarrow> string list" where
  "build_args_v0 cfg currentDevices segmentTemplate =
     input_args_disk cfg currentDevices @ map_args_disk cfg currentDevices
     @ output_args_disk ''30'' cfg segmentTemplate"

subsection \<open>Reading a command line back\<close>

text \<open>
  After \<^verbatim>\<open>-y\<close>, every option of these command lines takes one value. \<open>input_files\<close>
  lists the values of \<^verbatim>\<open>-i\<close> in order, which is how the encoder numbers its inputs;
  \<open>map_targets\<close> lists the streams sent to the output, \<open>filter_graphs\<close> the filter graphs.
\<close>

fun option_pairs :: "string list \<Rightarrow> (string \<times> string) list" where
  "option_pairs (k # v # rest) = (k, v) # option_pairs rest"
| "option_pairs _ = []"

definition values_of :: "string \<Rightarrow> string list \<Rightarrow> string list" where
  "values_of opt args = map snd (filter (\<lambda>kv. fst kv = opt) (option_pairs args))"

definition input_files :: "string list \<Rightarrow> string list" where
  "input_files inputs = values_of ''-i'' (tl inputs)"

definition map_targets :: "string list \<Rightarrow> string list" where
  "map_targets maps = values_of ''-map'' maps"

definition filter_graphs :: "string list \<Rightarrow> string list" where
  "filter_graphs maps = values_of ''-filter_complex'' maps"

definition ends_with :: "string \<Rightarrow> string \<Rightarrow> bool" where
  "ends_with s suffix = (drop (length s - length suffix) s = suffix \<and> length suffix \<le> length s)"

definition starts_with :: "string \<Rightarrow> string \<Rightarrow> bool" where
  "starts_with s p = (take (length p) s = p)"

text \<open>
  The planner's rules in the specification's words: the video input is always mapped; with
  two audio sources one mixing graph merges them into the single mapped track \<^verbatim>\<open>[aout]\<close>;
  with one source that input is mapped directly; with none there is no audio mapping.
  \<open>sys\<close> says whether system audio is a source, \<open>mic\<close> is the microphone if it is one.
\<close>

definition plan_ok :: "string list \<Rightarrow> string list \<Rightarrow> string \<Rightarrow> bool \<Rightarrow> string option \<Rightarrow> bool" where
  "plan_ok inputs maps screen sys mic =
     (let srcs = input_files inputs; targets = map_targets maps; graphs = filter_graphs maps
      in case (sys, mic) of
           (False, None) \<Rightarrow> srcs = [screen] \<and> targets = [''0:v''] \<and> graphs = []
         | (True, None) \<Rightarrow>
             srcs = [''pipe:0'', screen] \<and> targets = [''1:v'', ''0:a''] \<and> graphs = []
         | (False, Some m) \<Rightarrow>
             srcs = [screen, ''audio='' @ m] \<and> targets = [''0:v'', ''1:a''] \<and> graphs = []
         | (True, Some m) \<Rightarrow>
             srcs = [''pipe:0'', screen, ''audio='' @ m] \<and> targets = [''1:v'', ''[aout]'']
             \<and> length graphs = 1
             \<and> starts_with (hd graphs) ''[0:a][2:a]amix=inputs=2''
             \<and> ends_with (hd graphs) ''[aout]'')"

section \<open>State of the main process\<close>

type_synonym buffer = "8 word list"

text \<open>An element of \<^verbatim>\<open>videoBuffer: { time: number, chunk: Buffer }[]\<close>.\<close>

record entry =
  time :: int
  chunk :: buffer

text \<open>
  One invocation of \<^verbatim>\<open>saveReplay\<close> that passed its guards: the local variables its
  callbacks close over, and the callback the event loop will run next for it.
\<close>

datatype phase = Writing | Flushing | Extracting | Concatenating | Trimming

record job =
  tempFile :: string
  outputFile :: string
  chunksCopy :: "buffer list"
  i :: nat
  bufferSecs :: number
  phase :: phase

text \<open>
  The module-level variables, and what is registered with the event loop: unresolved
  \<^verbatim>\<open>fetchDevices()\<close> promises, armed timers, recorder processes that have not exited,
  and extractions in flight. \<open>mainWindow\<close> stands for the test
  \<^verbatim>\<open>mainWindow && !mainWindow.isDestroyed()\<close>.
\<close>

record state =
  isRecording :: bool
  recordProcess :: "nat option"
  recordingStartTime :: int
  useSystemAudio :: bool
  videoBuffer :: "entry list"
  totalBytes :: int
  config :: Config
  isSavingReplay :: bool
  mainWindow :: bool
  fetches :: nat
  killTimers :: nat
  restartTimers :: nat
  procs :: "nat list"
  jobs :: "job list"

datatype signal = SIGINT | SIGKILL

datatype timer = KillTimer | RestartTimer

text \<open>
  What a handler does to the world outside the module variables, in order. \<open>StdinEnd p\<close>
  is \<^verbatim>\<open>recordProcess.stdin?.end()\<close>, which does nothing for a process spawned without
  a pipe on its input; \<open>WriteConfig\<close> is \<^verbatim>\<open>saveConfigToDisk()\<close>, whose failure is
  caught and logged; \<open>PurgeDir\<close> and \<open>Unlink\<close> sit in \<^verbatim>\<open>try\<close>/\<^verbatim>\<open>catch\<close> blocks.
\<close>

datatype effect =
    Mkdir string
  | PurgeDir string
  | ListDevices
  | SpawnRecorder nat "string list" bool
  | StdinEnd nat
  | Kill nat signal
  | SetTimeout nat timer
  | SendRecordingState bool
  | SendStartSystemAudio
  | SendStopSystemAudio
  | WriteConfig Config
  | SetLoginItem bool
  | Notify string
  | CreateWriteStream string
  | StreamWrite string buffer
  | StreamEnd string
  | WriteFile string "string list"
  | SpawnFfmpeg "string list"
  | Unlink string

datatype completion = Returned | Thrown

text \<open>The paths the application reads from Electron at start-up.\<close>

record app =
  tempDir :: string
  videos :: string

text \<open>\<^verbatim>\<open>path.join(a, b)\<close> on the target platform, for paths already normalised.\<close>

definition path_join :: "string \<Rightarrow> string \<Rightarrow> string" where
  "path_join a b = a @ [CHR 0x5C] @ b"

text \<open>
  \<^verbatim>\<open>function ensureDir(dir) { if (!fs.existsSync(dir)) fs.mkdirSync(dir, { recursive:
  true }); }\<close>: the file system answers that the directory exists, that it can be made, or
  \<^verbatim>\<open>mkdirSync\<close> throws.
\<close>

datatype dir_status = DirExists | DirCreatable | DirUncreatable

definition ensureDir :: "dir_status \<Rightarrow> string \<Rightarrow> effect list \<times> completion" where
  "ensureDir st dir =
     (case st of
        DirExists \<Rightarrow> ([], Returned)
      | DirCreatable \<Rightarrow> ([Mkdir dir], Returned)
      | DirUncreatable \<Rightarrow> ([], Thrown))"

definition initial_state :: "Config \<Rightarrow> state" where
  "initial_state cfg =
     \<lparr> isRecording = False, recordProcess = None, recordingStartTime = 0,
       useSystemAudio = False, videoBuffer = [], totalBytes = 0, config = cfg,
       isSavingReplay = False, mainWindow = False, fetches = 0, killTimers = 0,
       restartTimers = 0, procs = [], jobs = [] \<rparr>"

section \<open>The Capture Pipeline Supervisor\<close>

text \<open>
  \<^verbatim>\<open>startRecording\<close> up to the call of \<^verbatim>\<open>fetchDevices()\<close>. The purge of the buffer
  directory sits in a \<^verbatim>\<open>try\<close>/\<^verbatim>\<open>catch\<close>; \<^verbatim>\<open>ensureDir\<close> does not.
\<close>

definition startRecording :: "app \<Rightarrow> dir_status \<Rightarrow> state \<Rightarrow> state \<times> effect list \<times> completion" where
  "startRecording a tmp s =
     (if isRecording s then (s, [], Returned)
      else case ensureDir tmp (tempDir a) of
             (effs, Thrown) \<Rightarrow> (s, effs, Thrown)
           | (effs, Returned) \<Rightarrow>
               (s\<lparr>fetches := Suc (fetches s)\<rparr>,
                effs @ [PurgeDir (tempDir a), ListDevices], Returned))"

text \<open>
  The continuation \<^verbatim>\<open>fetchDevices().then((currentDevices) => ...)\<close>: \<open>pid\<close> names the
  process \<^verbatim>\<open>spawn\<close> returns, \<open>t\<close> is \<^verbatim>\<open>Date.now()\<close>.
\<close>

definition devicesResolved :: "string list \<Rightarrow> nat \<Rightarrow> int \<Rightarrow> state \<Rightarrow> state \<times> effect list" where
  "devicesResolved currentDevices pid t s =
     (let sysAudio = (systemAudioDevice (config s) \<noteq> ''None'');
          args = build_args (config s) currentDevices;
          cfg' = (config s)\<lparr>autoRecord := True\<rparr>
      in (s\<lparr>useSystemAudio := sysAudio, recordingStartTime := t,
            recordProcess := Some pid, videoBuffer := [], totalBytes := 0,
            isRecording := True, config := cfg', procs := pid # procs s\<rparr>,
          [SpawnRecorder pid args sysAudio, WriteConfig cfg']
          @ (if mainWindow s
             then [SendRecordingState True] @ (if sysAudio then [SendStartSystemAudio] else [])
             else [])))"

text \<open>\<^verbatim>\<open>recordProcess.on('exit', ...)\<close>\<close>

definition recorderExit :: "state \<Rightarrow> state \<times> effect list" where
  "recorderExit s =
     (s\<lparr>isRecording := False, useSystemAudio := False\<rparr>,
      if mainWindow s then [SendRecordingState False, SendStopSystemAudio] else [])"

definition stopRecording :: "state \<Rightarrow> state \<times> effect list" where
  "stopRecording s =
     (if \<not> isRecording s then (s, [])
      else
        let cfg' = (config s)\<lparr>autoRecord := False\<rparr>
        in (s\<lparr>isRecording := False, useSystemAudio := False, config := cfg',
              killTimers := (if recordProcess s = None then killTimers s
                             else Suc (killTimers s))\<rparr>,
            (if mainWindow s then [SendStopSystemAudio] else [])
            @ (case recordProcess s of
                 None \<Rightarrow> []
               | Some p \<Rightarrow> [StdinEnd p, Kill p SIGINT, SetTimeout 3000 KillTimer])
            @ [WriteConfig cfg']
            @ (if mainWindow s then [SendRecordingState False] else [])))"

text \<open>The callback of the timer armed by \<^verbatim>\<open>stopRecording\<close>.\<close>

definition killTimeout :: "state \<Rightarrow> state \<times> effect list" where
  "killTimeout s =
     (s\<lparr>recordProcess := None\<rparr>,
      case recordProcess s of None \<Rightarrow> [] | Some p \<Rightarrow> [Kill p SIGKILL])"

section \<open>The Rolling Buffer Store\<close>

text \<open>
  \<^verbatim>\<open>while (videoBuffer.length > 2 && (videoBuffer[0].time < cutoff || totalBytes >
  hardLimit)) { const removed = videoBuffer.shift(); if (removed) totalBytes -=
  removed.chunk.length; }\<close>
\<close>

fun evict :: "int \<Rightarrow> int \<Rightarrow> entry list \<Rightarrow> int \<Rightarrow> entry list \<times> int" where
  "evict cutoff limit [] bytes = ([], bytes)"
| "evict cutoff limit (e # es) bytes =
     (if length (e # es) > 2 \<and> (time e < cutoff \<or> bytes > limit)
      then evict cutoff limit es (bytes - int (length (chunk e)))
      else (e # es, bytes))"

definition hardLimit :: int where
  "hardLimit = 2684354560"

definition cutoff_at :: "Config \<Rightarrow> int \<Rightarrow> int" where
  "cutoff_at cfg t = t - (or_default (parseInt (bufferTime cfg)) 300 + 15) * 1000"

text \<open>
  \<^verbatim>\<open>recordProcess.stdout.on('data', (chunk) => ...)\<close>. The handler reads the clock twice:
  \<open>t_push\<close> stamps the chunk, \<open>t_evict\<close> gives the cutoff.
\<close>

definition recorderData :: "int \<Rightarrow> int \<Rightarrow> buffer \<Rightarrow> state \<Rightarrow> state" where
  "recorderData t_push t_evict c s =
     (let pushed = videoBuffer s @ [\<lparr>time = t_push, chunk = c\<rparr>];
          bytes = totalBytes s + int (length c);
          kept = evict (cutoff_at (config s) t_evict) hardLimit pushed bytes
      in s\<lparr>videoBuffer := fst kept, totalBytes := snd kept\<rparr>)"

section \<open>The Replay Extractor\<close>

text \<open>
  What \<^verbatim>\<open>saveReplay\<close> reads from outside: the state of the output folder, the clock
  (\<^verbatim>\<open>Date.now()\<close>), the formatted time of the artifact's name, and the value each
  \<^verbatim>\<open>writeStream.write\<close> returns, in order (\<open>True\<close> once the list is used up).
\<close>

record env =
  out_dir :: dir_status
  now :: int
  formatTime :: string
  flushed :: "bool list"

text \<open>
  \<^verbatim>\<open>let isFlushed = true; while (i < chunksCopy.length && isFlushed) { isFlushed =
  writeStream.write(chunksCopy[i++]); }\<close>
\<close>

function writeLoop ::
  "bool list \<Rightarrow> string \<Rightarrow> buffer list \<Rightarrow> nat \<Rightarrow> bool \<Rightarrow> effect list \<Rightarrow> nat \<times> effect list" where
  "writeLoop answers file chunks k isFlushed written =
     (if k < length chunks \<and> isFlushed
      then writeLoop (tl answers) file chunks (Suc k)
             (case answers of [] \<Rightarrow> True | a # _ \<Rightarrow> a)
             (written @ [StreamWrite file (chunks ! k)])
      else (k, written))"
  by pat_completeness auto
termination
  by (relation "measure (\<lambda>(answers, file, chunks, k, isFlushed, written). length chunks - k)") auto

declare writeLoop.simps [simp del]

text \<open>
  \<^verbatim>\<open>writeNext\<close>: after the loop either a \<^verbatim>\<open>'drain'\<close> listener is registered (the job
  stays \<open>Writing\<close>) or the stream is ended (the job waits for \<^verbatim>\<open>'finish'\<close>).
\<close>

definition writeNext :: "bool list \<Rightarrow> job \<Rightarrow> job \<times> effect list" where
  "writeNext answers j =
     (let r = writeLoop answers (tempFile j) (chunksCopy j) (i j) True []
      in if fst r < length (chunksCopy j) then (j\<lparr>i := fst r\<rparr>, snd r)
         else (j\<lparr>i := fst r, phase := Flushing\<rparr>, snd r @ [StreamEnd (tempFile j)]))"

definition saveReplay :: "app \<Rightarrow> env \<Rightarrow> state \<Rightarrow> state \<times> effect list \<times> completion" where
  "saveReplay a e s =
     (if \<not> isRecording s then (s, [], Returned)
      else if isSavingReplay s then (s, [], Returned)
      else if length (videoBuffer s) = 0
      then (s, [Notify ''No video buffered yet.''], Returned)
      else if totalBytes s < 1024
      then (s, [Notify ''Not enough video buffered yet.''], Returned)
      else
        let secs = parseInt (bufferTime (config s));
            s1 = s\<lparr>isSavingReplay := True\<rparr>;
            folder = (if outputFolder (config s) = [] then videos a else outputFolder (config s))
        in case ensureDir (out_dir e) folder of
             (effs, Thrown) \<Rightarrow> (s1, effs, Thrown)
           | (effs, Returned) \<Rightarrow>
               let out = path_join folder (''ShadowWarp_Replay_'' @ formatTime e @ ''.mp4'');
                   tempDump = path_join (tempDir a) (''dump_'' @ string_of_int (now e) @ ''.ts'');
                   j = \<lparr> tempFile = tempDump, outputFile = out,
                         chunksCopy = map chunk (videoBuffer s), i = 0, bufferSecs = secs,
                         phase = Writing \<rparr>;
                   w = writeNext (flushed e) j
               in (s1\<lparr>jobs := jobs s1 @ [fst w]\<rparr>,
                   effs @ [CreateWriteStream tempDump] @ snd w, Returned))"

text \<open>The listener of \<^verbatim>\<open>'finish'\<close> spawns the trim pass.\<close>

definition extract_args :: "job \<Rightarrow> string list" where
  "extract_args j =
     [''-y'', ''-sseof'', ''-'' @ string_of_number (bufferSecs j), ''-i'', tempFile j,
      ''-c'', ''copy'', ''-movflags'', ''+faststart'', outputFile j]"

definition replay_saved :: string where
  "replay_saved = ''Replay saved!'' @ [CHR 0x0A] @ ''Click to view in folder.''"

text \<open>An exit code is a number, or \<^verbatim>\<open>null\<close> when a signal ended the process.\<close>

definition string_of_code :: "int option \<Rightarrow> string" where
  "string_of_code c = (case c of None \<Rightarrow> ''null'' | Some n \<Rightarrow> string_of_int n)"

text \<open>
  \<^verbatim>\<open>extractProcess.on('error', ...)\<close> and \<^verbatim>\<open>extractProcess.on('exit', ...)\<close>;
  \<open>dumpExists\<close> is \<^verbatim>\<open>fs.existsSync(tempDump)\<close>.
\<close>

definition extractError :: "string \<Rightarrow> bool \<Rightarrow> job \<Rightarrow> state \<Rightarrow> state \<times> effect list" where
  "extractError msg dumpExists j s =
     (s\<lparr>isSavingReplay := False\<rparr>,
      (if dumpExists then [Unlink (tempFile j)] else [])
      @ [Notify (''Failed to save replay: '' @ msg)])"

definition extractExit :: "int option \<Rightarrow> bool \<Rightarrow> job \<Rightarrow> state \<Rightarrow> state \<times> effect list" where
  "extractExit code dumpExists j s =
     (s\<lparr>isSavingReplay := False\<rparr>,
      (if dumpExists then [Unlink (tempFile j)] else [])
      @ (if code = Some 0 then [Notify replay_saved]
         else [Notify (''Failed to save replay. Code: '' @ string_of_code code)]))"

subsection \<open>The disk revision\<close>

text \<open>
  What the disk revision's \<^verbatim>\<open>saveReplay\<close> reads from outside: the names in the buffer
  directory (\<open>None\<close>: \<^verbatim>\<open>readdirSync\<close> throws) with the size \<^verbatim>\<open>statSync\<close> reports for
  each (\<open>None\<close>: it throws), whether \<^verbatim>\<open>writeFileSync\<close> of the concat list succeeds, the
  state of the output folder, and the clock.
\<close>

record env_disk =
  listing :: "(string \<times> nat option) list option"
  list_writable :: bool
  out_dir_disk :: dir_status
  now_disk :: int
  formatTime_disk :: string

fun str_le :: "string \<Rightarrow> string \<Rightarrow> bool" where
  "str_le [] ys = True"
| "str_le (x # xs) [] = False"
| "str_le (x # xs) (y # ys) =
     ((of_char x :: nat) < of_char y \<or> (x = y \<and> str_le xs ys))"

fun insert_sorted :: "string \<times> nat option \<Rightarrow> (string \<times> nat option) list \<Rightarrow> (string \<times> nat option) list" where
  "insert_sorted x [] = [x]"
| "insert_sorted x (y # ys) =
     (if str_le (fst x) (fst y) then x # y # ys else y # insert_sorted x ys)"

text \<open>\<^verbatim>\<open>Array.prototype.sort()\<close> on names: ascending order of code units, stable.\<close>

definition sort_names :: "(string \<times> nat option) list \<Rightarrow> (string \<times> nat option) list" where
  "sort_names xs = foldr insert_sorted xs []"

text \<open>\<^verbatim>\<open>xs.slice(start)\<close>; \<open>None\<close> is \<open>NaN\<close>, which counts as 0.\<close>

definition js_slice :: "number \<Rightarrow> 'a list \<Rightarrow> 'a list" where
  "js_slice start xs =
     (let len = int (length xs);
          st = (case start of None \<Rightarrow> 0 | Some k \<Rightarrow> k);
          k = (if st < 0 then max (len + st) 0 else min st len)
      in drop (nat k) xs)"

text \<open>\<^verbatim>\<open>Math.ceil(bufferSecs / SEGMENT_DURATION) + 2\<close>\<close>

definition segmentsNeeded :: "number \<Rightarrow> number" where
  "segmentsNeeded secs =
     (case secs of None \<Rightarrow> None | Some b \<Rightarrow> Some (- ((- b) div SEGMENT_DURATION) + 2))"

definition neg_number :: "number \<Rightarrow> number" where
  "neg_number x = (case x of None \<Rightarrow> None | Some k \<Rightarrow> Some (- k))"

text \<open>\<^verbatim>\<open>`file '${f.filePath.replace(/\\/g, '/')}'`\<close>\<close>

definition concat_line :: "string \<Rightarrow> string" where
  "concat_line filePath =
     ''file '' @ [CHR 0x27] @ map (\<lambda>c. if c = CHR 0x5C then CHR ''/'' else c) filePath @ [CHR 0x27]"

definition concat_args :: "string \<Rightarrow> string \<Rightarrow> string list" where
  "concat_args concatListPath tempConcatFile =
     [''-y'', ''-fflags'', ''+genpts+igndts'', ''-f'', ''concat'', ''-safe'', ''0'',
      ''-i'', concatListPath, ''-c'', ''copy'', tempConcatFile]"

definition saveReplay_disk ::
  "app \<Rightarrow> env_disk \<Rightarrow> state \<Rightarrow> state \<times> effect list \<times> completion" where
  "saveReplay_disk a e s =
     (if \<not> isRecording s then (s, [], Returned)
      else if isSavingReplay s then (s, [], Returned)
      else
        let secs = parseInt (bufferTime (config s))
        in case listing e of
             None \<Rightarrow> (s, [], Thrown)
           | Some names \<Rightarrow>
               let ordered = sort_names (filter (\<lambda>f. ends_with (fst f) ''.ts'') names);
                   allFiles = concat (map (\<lambda>f. case snd f of
                                  None \<Rightarrow> []
                                | Some sz \<Rightarrow>
                                    if sz > 0 then [(path_join (tempDir a) (fst f), sz)] else [])
                                ordered)
               in if length allFiles = 0
                  then (s, [Notify ''No video buffered yet.''], Returned)
                  else
                    let selectedFiles = js_slice (neg_number (segmentsNeeded secs)) allFiles;
                        s1 = s\<lparr>isSavingReplay := True\<rparr>;
                        concatListPath = path_join (tempDir a) ''concat.txt'';
                        entries = map (\<lambda>f. concat_line (fst f)) selectedFiles
                    in if \<not> list_writable e then (s1, [], Thrown)
                       else
                         let folder = (if outputFolder (config s) = [] then videos a
                                       else outputFolder (config s))
                         in case ensureDir (out_dir_disk e) folder of
                              (effs, Thrown) \<Rightarrow>
                                (s1, [WriteFile concatListPath entries] @ effs, Thrown)
                            | (effs, Returned) \<Rightarrow>
                                let out = path_join folder
                                            (''ShadowWarp_Replay_'' @ formatTime_disk e @ ''.mp4'');
                                    tempConcatFile = path_join (tempDir a)
                                            (''temp_concat_'' @ string_of_int (now_disk e) @ ''.mp4'');
                                    j = \<lparr> tempFile = tempConcatFile, outputFile = out,
                                          chunksCopy = [], i = 0, bufferSecs = secs,
                                          phase = Concatenating \<rparr>
                                in (s1\<lparr>jobs := jobs s1 @ [j]\<rparr>,
                                    [WriteFile concatListPath entries] @ effs
                                    @ [SpawnFfmpeg (concat_args concatListPath tempConcatFile)],
                                    Returned))"

definition trim_args :: "job \<Rightarrow> string list" where
  "trim_args j =
     [''-y'', ''-sseof'', ''-'' @ string_of_number (bufferSecs j), ''-i'', tempFile j,
      ''-c'', ''copy'', outputFile j]"

text \<open>
  The listeners of the concat pass and of the trim pass. The third component of
  \<open>concatExit\<close> says whether the extraction goes on (the trim pass was spawned).
\<close>

definition concatError :: "string \<Rightarrow> job \<Rightarrow> state \<Rightarrow> state \<times> effect list" where
  "concatError msg j s =
     (s\<lparr>isSavingReplay := False\<rparr>, [Notify (''Failed to save replay: '' @ msg)])"

definition concatExit :: "int option \<Rightarrow> job \<Rightarrow> state \<Rightarrow> state \<times> effect list \<times> bool" where
  "concatExit concatCode j s =
     (if concatCode \<noteq> Some 0
      then (s\<lparr>isSavingReplay := False\<rparr>,
            [Notify (''Failed to save replay. Code: '' @ string_of_code concatCode),
             Unlink (tempFile j)], False)
      else (s, [SpawnFfmpeg (trim_args j)], True))"

definition trimError :: "string \<Rightarrow> job \<Rightarrow> state \<Rightarrow> state \<times> effect list" where
  "trimError msg j s =
     (s\<lparr>isSavingReplay := False\<rparr>,
      [Unlink (tempFile j), Notify (''Failed to trim replay: '' @ msg)])"

text \<open>\<open>outSize\<close> is \<^verbatim>\<open>fs.statSync(outputFile).size\<close>, \<open>None\<close> when \<^verbatim>\<open>statSync\<close> throws.\<close>

definition trimExit :: "int option \<Rightarrow> nat option \<Rightarrow> job \<Rightarrow> state \<Rightarrow> state \<times> effect list" where
  "trimExit trimCode outSize j s =
     (s\<lparr>isSavingReplay := False\<rparr>,
      [Unlink (tempFile j)]
      @ (if trimCode = Some 0
         then (case outSize of
                 Some sz \<Rightarrow>
                   if sz < 1024
                   then [Notify ''Replay save failed: output file is empty.'',
                         Unlink (outputFile j)]
                   else [Notify replay_saved]
               | None \<Rightarrow> [Notify ''Replay save failed: output file missing.''])
         else [Notify (''Failed to save replay. Code: '' @ string_of_code trimCode)]))"

section \<open>Saving the configuration\<close>

text \<open>
  The argument of the \<^verbatim>\<open>'save-config'\<close> handler is an object sent by the renderer; a
  property it does not have reads as \<^verbatim>\<open>undefined\<close>, here \<open>None\<close>.
\<close>

record newConfig =
  new_fps :: "string option"
  new_codec :: "string option"
  new_bitrate :: "string option"
  new_bufferTime :: "string option"
  new_outputFolder :: "string option"
  new_shortcut :: "string option"
  new_autoStart :: "bool option"
  new_autoRecord :: "bool option"
  new_audioDevice :: "string option"
  new_systemAudioDevice :: "string option"

definition or_old :: "'a option \<Rightarrow> 'a \<Rightarrow> 'a" where
  "or_old new old = (case new of None \<Rightarrow> old | Some v \<Rightarrow> v)"

text \<open>\<^verbatim>\<open>Object.assign(config, newConfig)\<close>\<close>

definition assign :: "Config \<Rightarrow> newConfig \<Rightarrow> Config" where
  "assign cfg nc =
     \<lparr> fps = or_old (new_fps nc) (fps cfg),
       codec = or_old (new_codec nc) (codec cfg),
       bitrate = or_old (new_bitrate nc) (bitrate cfg),
       bufferTime = or_old (new_bufferTime nc) (bufferTime cfg),
       outputFolder = or_old (new_outputFolder nc) (outputFolder cfg),
       shortcut = or_old (new_shortcut nc) (shortcut cfg),
       autoStart = or_old (new_autoStart nc) (autoStart cfg),
       autoRecord = or_old (new_autoRecord nc) (autoRecord cfg),
       audioDevice = or_old (new_audioDevice nc) (audioDevice cfg),
       systemAudioDevice = or_old (new_systemAudioDevice nc) (systemAudioDevice cfg) \<rparr>"

text \<open>
  The object the renderer's \<^verbatim>\<open>handleConfigChange\<close> sends: every field of its copy of
  the configuration.
\<close>

definition full :: "Config \<Rightarrow> newConfig" where
  "full cfg =
     \<lparr> new_fps = Some (fps cfg), new_codec = Some (codec cfg),
       new_bitrate = Some (bitrate cfg), new_bufferTime = Some (bufferTime cfg),
       new_outputFolder = Some (outputFolder cfg), new_shortcut = Some (shortcut cfg),
       new_autoStart = Some (autoStart cfg), new_autoRecord = Some (autoRecord cfg),
       new_audioDevice = Some (audioDevice cfg),
       new_systemAudioDevice = Some (systemAudioDevice cfg) \<rparr>"

text \<open>
  \<^verbatim>\<open>ipcMain.handle('save-config', (e, newConfig) => ...)\<close>, the same in every revision.
  The test for a changed audio set-up reads \<^verbatim>\<open>config\<close> after \<^verbatim>\<open>Object.assign\<close>:
  \<^verbatim>\<open>config.audioDevice !== newConfig.audioDevice || config.systemAudioDevice !==
  newConfig.systemAudioDevice\<close>.
\<close>

definition saveConfig :: "newConfig \<Rightarrow> state \<Rightarrow> state \<times> effect list" where
  "saveConfig nc s =
     (let oldAutoStart = autoStart (config s);
          cfg = assign (config s) nc;
          s1 = s\<lparr>config := cfg\<rparr>;
          login = (if autoStart cfg \<noteq> oldAutoStart then [SetLoginItem (autoStart cfg)] else [])
      in if (Some (audioDevice cfg) \<noteq> new_audioDevice nc
             \<or> Some (systemAudioDevice cfg) \<noteq> new_systemAudioDevice nc) \<and> isRecording s1
         then
           let stopped = stopRecording s1;
               s2 = (fst stopped)\<lparr>restartTimers := Suc (restartTimers (fst stopped))\<rparr>
           in (s2, login @ snd stopped @ [SetTimeout 3000 RestartTimer, WriteConfig (config s2)])
         else (s1, login @ [WriteConfig cfg]))"

section \<open>The event loop\<close>

text \<open>
  The events of the memory revision that run a handler writing a module variable. (The
  handlers left out only read them: the relay of system audio to the recorder's input,
  the getters, the window controls and quitting.) A callback runs only if it is
  registered: a continuation needs an unresolved promise, a timer callback an armed
  timer, a process listener its process, and a listener of an extraction the extraction
  at that position of \<open>jobs\<close> in the right phase. Any other event leaves the state as
  it is. An error of the write stream has no listener: the process-wide handler logs it
  and the extraction has no callback left.
\<close>

datatype event =
    AppReady dir_status
  | StartRecording dir_status
  | DevicesResolved "string list" nat int
  | StopRecording
  | KillTimeout
  | RestartTimeout dir_status
  | RecorderData nat int int buffer
  | RecorderExit nat
  | SaveReplay env
  | StreamDrain nat "bool list"
  | StreamFinish nat
  | StreamError nat
  | ExtractError nat string bool
  | ExtractExit nat "int option" bool
  | SaveConfig newConfig
  | WindowDestroyed

definition without :: "nat \<Rightarrow> 'a list \<Rightarrow> 'a list" where
  "without k xs = take k xs @ drop (Suc k) xs"

definition in_phase :: "state \<Rightarrow> nat \<Rightarrow> phase \<Rightarrow> bool" where
  "in_phase s k p = (k < length (jobs s) \<and> phase (jobs s ! k) = p)"

definition drop_completion :: "state \<times> effect list \<times> completion \<Rightarrow> state \<times> effect list" where
  "drop_completion r = (fst r, fst (snd r))"

fun fire :: "app \<Rightarrow> event \<Rightarrow> state \<Rightarrow> state \<times> effect list" where
  "fire a (AppReady tmp) s =
     (let s1 = s\<lparr>mainWindow := True\<rparr>;
          login = [SetLoginItem (autoStart (config s))]
      in if autoRecord (config s1)
         then (let r = startRecording a tmp s1 in (fst r, login @ fst (snd r)))
         else (s1, login))"
| "fire a (StartRecording tmp) s = drop_completion (startRecording a tmp s)"
| "fire a (DevicesResolved currentDevices pid t) s =
     (if fetches s > 0 \<and> pid \<notin> set (procs s)
      then devicesResolved currentDevices pid t (s\<lparr>fetches := fetches s - 1\<rparr>)
      else (s, []))"
| "fire a StopRecording s = stopRecording s"
| "fire a KillTimeout s =
     (if killTimers s > 0 then killTimeout (s\<lparr>killTimers := killTimers s - 1\<rparr>) else (s, []))"
| "fire a (RestartTimeout tmp) s =
     (if restartTimers s > 0
      then drop_completion (startRecording a tmp (s\<lparr>restartTimers := restartTimers s - 1\<rparr>))
      else (s, []))"
| "fire a (RecorderData pid t_push t_evict c) s =
     (if pid \<in> set (procs s) then (recorderData t_push t_evict c s, []) else (s, []))"
| "fire a (RecorderExit pid) s =
     (if pid \<in> set (procs s) then recorderExit (s\<lparr>procs := removeAll pid (procs s)\<rparr>)
      else (s, []))"
| "fire a (SaveReplay e) s = drop_completion (saveReplay a e s)"
| "fire a (StreamDrain k answers) s =
     (if in_phase s k Writing
      then (let w = writeNext answers (jobs s ! k) in (s\<lparr>jobs := (jobs s)[k := fst w]\<rparr>, snd w))
      else (s, []))"
| "fire a (StreamFinish k) s =
     (if in_phase s k Flushing
      then (s\<lparr>jobs := (jobs s)[k := (jobs s ! k)\<lparr>phase := Extracting\<rparr>]\<rparr>,
            [SpawnFfmpeg (extract_args (jobs s ! k))])
      else (s, []))"
| "fire a (StreamError k) s =
     (if in_phase s k Writing \<or> in_phase s k Flushing
      then (s\<lparr>jobs := without k (jobs s)\<rparr>, [])
      else (s, []))"
| "fire a (ExtractError k msg dumpExists) s =
     (if in_phase s k Extracting
      then extractError msg dumpExists (jobs s ! k) (s\<lparr>jobs := without k (jobs s)\<rparr>)
      else (s, []))"
| "fire a (ExtractExit k code dumpExists) s =
     (if in_phase s k Extracting
      then extractExit code dumpExists (jobs s ! k) (s\<lparr>jobs := without k (jobs s)\<rparr>)
      else (s, []))"
| "fire a (SaveConfig nc) s = saveConfig nc s"
| "fire a WindowDestroyed s = (s\<lparr>mainWindow := False\<rparr>, [])"

text \<open>The state after a sequence of events, and everything done on the way.\<close>

fun run :: "app \<Rightarrow> event list \<Rightarrow> state \<Rightarrow> state" where
  "run a [] s = s"
| "run a (ev # evs) s = run a evs (fst (fire a ev s))"

fun trace :: "app \<Rightarrow> event list \<Rightarrow> state \<Rightarrow> effect list" where
  "trace a [] s = []"
| "trace a (ev # evs) s = snd (fire a ev s) @ trace a evs (fst (fire a ev s))"

text \<open>
  The extraction events of the disk revision. Its supervisor is not modelled; what it
  does to \<^verbatim>\<open>isRecording\<close> is the event \<open>RecordingChanged\<close>.
\<close>

datatype event_disk =
    SaveReplayDisk env_disk
  | ConcatError nat string
  | ConcatExit nat "int option"
  | TrimError nat string
  | TrimExit nat "int option" "nat option"
  | RecordingChanged bool

fun fire_disk :: "app \<Rightarrow> event_disk \<Rightarrow> state \<Rightarrow> state \<times> effect list" where
  "fire_disk a (SaveReplayDisk e) s = drop_completion (saveReplay_disk a e s)"
| "fire_disk a (ConcatError k msg) s =
     (if in_phase s k Concatenating
      then concatError msg (jobs s ! k) (s\<lparr>jobs := without k (jobs s)\<rparr>)
      else (s, []))"
| "fire_disk a (ConcatExit k code) s =
     (if in_phase s k Concatenating
      then (let r = concatExit code (jobs s ! k) s
            in if snd (snd r)
               then ((fst r)\<lparr>jobs := (jobs s)[k := (jobs s ! k)\<lparr>phase := Trimming\<rparr>]\<rparr>,
                     fst (snd r))
               else ((fst r)\<lparr>jobs := without k (jobs s)\<rparr>, fst (snd r)))
      else (s, []))"
| "fire_disk a (TrimError k msg) s =
     (if in_phase s k Trimming
      then trimError msg (jobs s ! k) (s\<lparr>jobs := without k (jobs s)\<rparr>)
      else (s, []))"
| "fire_disk a (TrimExit k code outSize) s =
     (if in_phase s k Trimming
      then trimExit code outSize (jobs s ! k) (s\<lparr>jobs := without k (jobs s)\<rparr>)
      else (s, []))"
| "fire_disk a (RecordingChanged b) s = (s\<lparr>isRecording := b\<rparr>, [])"

fun run_disk :: "app \<Rightarrow> event_disk list \<Rightarrow> state \<Rightarrow> state" where
  "run_disk a [] s = s"
| "run_disk a (ev # evs) s = run_disk a evs (fst (fire_disk a ev s))"

text \<open>What the renderer's state-change listener observes in a list of effects.\<close>

definition observed :: "effect list \<Rightarrow> bool list" where
  "observed effs = concat (map (\<lambda>x. case x of SendRecordingState b \<Rightarrow> [b] | _ \<Rightarrow> []) effs)"

definition bytes_of :: "entry list \<Rightarrow> int" where
  "bytes_of es = sum_list (map (\<lambda>e. int (length (chunk e))) es)"

section \<open>Properties of states\<close>

text \<open>The byte counter is the size of the buffer.\<close>

definition consistent :: "state \<Rightarrow> bool" where
  "consistent s = (totalBytes s = bytes_of (videoBuffer s))"

text \<open>At most one extraction is in flight, and the lock is held while it is.\<close>

definition single_flight :: "state \<Rightarrow> bool" where
  "single_flight s = (jobs s = [] \<or> (length (jobs s) = 1 \<and> isSavingReplay s))"

text \<open>The lock is held and no extraction is in flight: no listener is left to release it.\<close>

definition stuck :: "state \<Rightarrow> bool" where
  "stuck s = (isSavingReplay s \<and> jobs s = [])"

text \<open>
  A directory entry the disk revision can extract from: a segment file that
  \<^verbatim>\<open>statSync\<close> reports as not empty.
\<close>

definition usable :: "string \<times> nat option \<Rightarrow> bool" where
  "usable f = (ends_with (fst f) ''.ts'' \<and> (case snd f of None \<Rightarrow> False | Some sz \<Rightarrow> 0 < sz))"

text \<open>
  The events whose handlers assign to \<^verbatim>\<open>config\<close> or call \<^verbatim>\<open>saveConfigToDisk\<close>: the
  continuation of \<^verbatim>\<open>startRecording\<close>, \<^verbatim>\<open>stopRecording\<close> and \<^verbatim>\<open>'save-config'\<close>.
\<close>

definition writes_config :: "event \<Rightarrow> bool" where
  "writes_config ev =
     (case ev of DevicesResolved devs pid t \<Rightarrow> True | StopRecording \<Rightarrow> True
      | SaveConfig nc \<Rightarrow> True | _ \<Rightarrow> False)"

definition config_write :: "effect \<Rightarrow> bool" where
  "config_write x = (case x of WriteConfig cfg \<Rightarrow> True | _ \<Rightarrow> False)"

section \<open>Example inputs\<close>

definition app0 :: app where
  "app0 = \<lparr> tempDir = ''T'', videos = ''V'' \<rparr>"

text \<open>The state right after a first recorder was spawned.\<close>

definition recording_state :: state where
  "recording_state = fst (devicesResolved [] 1 1000 (initial_state default_config))"

text \<open>Two chunks of 600 bytes have arrived.\<close>

definition warm_up :: "event list" where
  "warm_up =
     [AppReady DirExists, DevicesResolved [''Mic''] 1 1000,
      RecorderData 1 2000 2000 (replicate 600 0), RecorderData 1 3000 3000 (replicate 600 0)]"

text \<open>An extraction whose first write reports back-pressure, so that it stays in flight.\<close>

definition slow_disk :: env where
  "slow_disk = \<lparr> out_dir = DirExists, now = 4000, formatTime = ''2026-11-02_10-00-00'',
                  flushed = [False] \<rparr>"

definition in_flight :: "event list" where
  "in_flight = warm_up @ [SaveReplay slow_disk]"

text \<open>Recording is stopped and started again while that extraction is in flight.\<close>

definition restarted :: "event list" where
  "restarted =
     in_flight @ [StopRecording, StartRecording DirExists, DevicesResolved [''Mic''] 2 5000]"

text \<open>The output folder cannot be created; the concat list cannot be written.\<close>

definition folder_gone :: env where
  "folder_gone = \<lparr> out_dir = DirUncreatable, now = 4000, formatTime = ''2026-11-02_10-00-00'',
                    flushed = [] \<rparr>"

definition list_unwritable :: env_disk where
  "list_unwritable =
     \<lparr> listing = Some [(''buffer_20261102100000.ts'', Some 2048)], list_writable = False,
       out_dir_disk = DirExists, now_disk = 4000, formatTime_disk = ''2026-11-02_10-00-00'' \<rparr>"

text \<open>A buffer directory with one segment, and an extraction of it that goes well.\<close>

definition one_segment :: env_disk where
  "one_segment =
     \<lparr> listing = Some [(''buffer_20261102100000.ts'', Some 2048)], list_writable = True,
       out_dir_disk = DirExists, now_disk = 4000, formatTime_disk = ''2026-11-02_10-00-00'' \<rparr>"

text \<open>A buffer directory with no segment to extract from.\<close>

definition no_segments :: env_disk where
  "no_segments =
     \<lparr> listing = Some [(''concat.txt'', Some 120), (''buffer_20261102100000.ts'', Some 0)],
       list_writable = True, out_dir_disk = DirExists, now_disk = 4000,
       formatTime_disk = ''2026-11-02_10-00-00'' \<rparr>"

text \<open>A buffer directory whose only segment holds one byte.\<close>

definition tiny_segment :: env_disk where
  "tiny_segment =
     \<lparr> listing = Some [(''buffer_20261102100000.ts'', Some 1)], list_writable = True,
       out_dir_disk = DirExists, now_disk = 4000, formatTime_disk = ''2026-11-02_10-00-00'' \<rparr>"

text \<open>A buffer directory that \<^verbatim>\<open>readdirSync\<close> cannot list.\<close>

definition unreadable :: env_disk where
  "unreadable =
     \<lparr> listing = None, list_writable = True, out_dir_disk = DirExists, now_disk = 4000,
       formatTime_disk = ''2026-11-02_10-00-00'' \<rparr>"

text \<open>
  Two more chunks arrive 310 seconds after the start, so that the first two are about to
  leave the window of 300 + 15 seconds.
\<close>

definition rolling :: "event list" where
  "rolling = warm_up @ [RecorderData 1 310000 310000 [1], RecorderData 1 311000 311000 [2]]"

text \<open>A recorder that has delivered three bytes so far.\<close>

definition trickle :: "event list" where
  "trickle =
     [AppReady DirExists, DevicesResolved [''Mic''] 1 1000, RecorderData 1 2000 2000 [1, 2, 3]]"

text \<open>The wall clock is set back a long way before the second chunk, and forward again.\<close>

definition skewed :: "event list" where
  "skewed =
     [AppReady DirExists, DevicesResolved [] 1 999000,
      RecorderData 1 1000000 1000000 [1], RecorderData 1 0 0 [2],
      RecorderData 1 1000001 1000001 [3], RecorderData 1 1000002 1000002 [4]]"

text \<open>
  What the renderer sends when the microphone selector is changed to another device
  while the configuration is otherwise that of \<open>recording_state\<close>.
\<close>

definition mic_changed :: newConfig where
  "mic_changed = full ((config recording_state)\<lparr>audioDevice := ''Headset''\<rparr>)"

definition some_job :: job where
  "some_job = \<lparr> tempFile = ''T/dump_4000.ts'', outputFile = ''V/replay.mp4'',
                 chunksCopy = [], i = 0, bufferSecs = Some 300, phase = Extracting \<rparr>"

text \<open>
  A launch with the default configuration, which starts recording. The renderer reads the
  configuration once, when it mounts (\<^verbatim>\<open>getConfig().then(setConfig)\<close>), so its copy is
  \<open>default_config\<close>, with \<^verbatim>\<open>autoRecord\<close> true. The user stops recording and then sets the
  bitrate to 20: \<^verbatim>\<open>handleConfigChange\<close> sends \<^verbatim>\<open>{...config, bitrate: '20'}\<close>.
\<close>

definition launched :: "event list" where
  "launched = [AppReady DirExists, DevicesResolved [''Mic''] 1 1000]"

definition stale_after_stop :: "event list" where
  "stale_after_stop =
     launched @ [StopRecording, SaveConfig (full (default_config\<lparr>bitrate := ''20''\<rparr>))]"

text \<open>
  The other way round: a launch with the flag off, so the renderer's copy has it off; the
  user starts recording and then sets the bitrate to 20.
\<close>

definition resume_off :: Config where
  "resume_off = default_config\<lparr>autoRecord := False\<rparr>"

definition stale_after_start :: "event list" where
  "stale_after_start =
     [AppReady DirExists, StartRecording DirExists, DevicesResolved [''Mic''] 1 1000,
      SaveConfig (full (resume_off\<lparr>bitrate := ''20''\<rparr>))]"

section \<open>Evaluating the examples\<close>

lemma string_of_int_small:
  "string_of_int 0 = ''0''" "string_of_int 1 = ''1''" "string_of_int 2 = ''2''"
  "string_of_int (- 1) = ''-1''"
  by (simp_all add: string_of_int_def decimal.simps decimal_digits_def)

lemma parse_300: "parseInt ''300'' = Some 300"
  by (simp add: parseInt_def is_ws_def is_digit_def digit_value_def)

lemmas eval_defs = default_config_def micOk_def mappedMic_def screen_input_def parseInt_def
  is_ws_def is_digit_def digit_value_def or_default_def string_of_int_def
  decimal.simps decimal_digits_def

lemmas handler_defs = startRecording_def devicesResolved_def stopRecording_def killTimeout_def
  recorderExit_def recorderData_def saveReplay_def saveConfig_def extractError_def extractExit_def
  writeNext_def drop_completion_def ensureDir_def in_phase_def without_def cutoff_at_def
  or_default_def hardLimit_def initial_state_def default_config_def

lemma run_append: "run a (xs @ ys) s = run a ys (run a xs s)"
  by (induction xs arbitrary: s) simp_all

lemma recording_state_eval:
  "recording_state =
     \<lparr> isRecording = True, recordProcess = Some 1, recordingStartTime = 1000,
       useSystemAudio = True, videoBuffer = [], totalBytes = 0, config = default_config,
       isSavingReplay = False, mainWindow = False, fetches = 0, killTimers = 0,
       restartTimers = 0, procs = [1], jobs = [] \<rparr>"
  by (simp add: recording_state_def devicesResolved_def initial_state_def default_config_def Let_def)

lemma warm_up_state:
  "run app0 warm_up (initial_state default_config) =
     \<lparr> isRecording = True, recordProcess = Some 1, recordingStartTime = 1000,
       useSystemAudio = True,
       videoBuffer = [\<lparr>time = 2000, chunk = replicate 600 0\<rparr>,
                      \<lparr>time = 3000, chunk = replicate 600 0\<rparr>],
       totalBytes = 1200, config = default_config,
       isSavingReplay = False, mainWindow = True, fetches = 0, killTimers = 0,
       restartTimers = 0, procs = [1], jobs = [] \<rparr>"
  by (simp add: warm_up_def handler_defs parse_300 Let_def)

lemma in_flight_state:
  "run app0 in_flight (initial_state default_config) =
     \<lparr> isRecording = True, recordProcess = Some 1, recordingStartTime = 1000,
       useSystemAudio = True,
       videoBuffer = [\<lparr>time = 2000, chunk = replicate 600 0\<rparr>,
                      \<lparr>time = 3000, chunk = replicate 600 0\<rparr>],
       totalBytes = 1200, config = default_config,
       isSavingReplay = True, mainWindow = True, fetches = 0, killTimers = 0,
       restartTimers = 0, procs = [1],
       jobs = [\<lparr> tempFile = path_join ''T'' ''dump_4000.ts'',
                 outputFile = path_join ''V'' ''ShadowWarp_Replay_2026-11-02_10-00-00.mp4'',
                 chunksCopy = [replicate 600 0, replicate 600 0], i = 1,
                 bufferSecs = Some 300, phase = Writing \<rparr>] \<rparr>"
  unfolding in_flight_def run_append warm_up_state
  by (simp add: saveReplay_def drop_completion_def ensureDir_def writeNext_def writeLoop.simps
      slow_disk_def app0_def default_config_def parse_300 Let_def string_of_int_def
      decimal.simps decimal_digits_def)

lemma restarted_state:
  "run app0 restarted (initial_state default_config) =
     \<lparr> isRecording = True, recordProcess = Some 2, recordingStartTime = 5000,
       useSystemAudio = True, videoBuffer = [], totalBytes = 0,
       config = default_config,
       isSavingReplay = True, mainWindow = True, fetches = 0, killTimers = 1,
       restartTimers = 0, procs = [2, 1],
       jobs = [\<lparr> tempFile = path_join ''T'' ''dump_4000.ts'',
                 outputFile = path_join ''V'' ''ShadowWarp_Replay_2026-11-02_10-00-00.mp4'',
                 chunksCopy = [replicate 600 0, replicate 600 0], i = 1,
                 bufferSecs = Some 300, phase = Writing \<rparr>] \<rparr>"
  unfolding restarted_def run_append in_flight_state
  by (simp add: stopRecording_def startRecording_def devicesResolved_def drop_completion_def
      ensureDir_def default_config_def Let_def)

lemma rolling_state:
  "run app0 rolling (initial_state default_config) =
     \<lparr> isRecording = True, recordProcess = Some 1, recordingStartTime = 1000,
       useSystemAudio = True,
       videoBuffer = [\<lparr>time = 2000, chunk = replicate 600 0\<rparr>,
                      \<lparr>time = 3000, chunk = replicate 600 0\<rparr>,
                      \<lparr>time = 310000, chunk = [1]\<rparr>, \<lparr>time = 311000, chunk = [2]\<rparr>],
       totalBytes = 1202, config = default_config,
       isSavingReplay = False, mainWindow = True, fetches = 0, killTimers = 0,
       restartTimers = 0, procs = [1], jobs = [] \<rparr>"
  unfolding rolling_def run_append warm_up_state
  by (simp add: recorderData_def cutoff_at_def or_default_def hardLimit_def default_config_def
      parse_300 Let_def)

lemma rolling_append:
  "videoBuffer (recorderData 320000 320000 [3] (run app0 rolling (initial_state default_config)))
     = [\<lparr>time = 310000, chunk = [1]\<rparr>, \<lparr>time = 311000, chunk = [2]\<rparr>,
        \<lparr>time = 320000, chunk = [3]\<rparr>]"
  "totalBytes (recorderData 320000 320000 [3] (run app0 rolling (initial_state default_config)))
     = 3"
  "cutoff_at (config (run app0 rolling (initial_state default_config))) 320000 = 5000"
  unfolding rolling_state
  by (simp_all add: recorderData_def cutoff_at_def or_default_def hardLimit_def
      default_config_def parse_300 Let_def)

lemma trickle_state:
  "run app0 trickle (initial_state default_config) =
     \<lparr> isRecording = True, recordProcess = Some 1, recordingStartTime = 1000,
       useSystemAudio = True, videoBuffer = [\<lparr>time = 2000, chunk = [1, 2, 3]\<rparr>],
       totalBytes = 3, config = default_config,
       isSavingReplay = False, mainWindow = True, fetches = 0, killTimers = 0,
       restartTimers = 0, procs = [1], jobs = [] \<rparr>"
  by (simp add: trickle_def handler_defs parse_300 Let_def)

section \<open>The Argument Planner maps the sources it has\<close>

lemmas plan_defs = plan_ok_def input_files_def map_targets_def filter_graphs_def values_of_def
  audioInputs_def starts_with_def ends_with_def string_of_int_small

lemma plan_memory:
  "plan_ok (input_args cfg devs) (map_args cfg devs) (screen_input cfg)
     (systemAudioDevice cfg \<noteq> ''None'')
     (if micOk cfg devs then Some (mappedMic cfg devs) else None)"
  by (simp add: plan_defs input_args_def map_args_def)

lemma plan_disk:
  "plan_ok (input_args_disk cfg devs) (map_args_disk cfg devs) ''desktop''
     (systemAudioDevice cfg \<noteq> ''None'')
     (if micOk cfg devs then Some (mappedMic cfg devs) else None)"
  by (simp add: plan_defs input_args_disk_def map_args_disk_def)

text \<open>
  C7. In every revision the command line is the inputs, then the mappings, then the
  encoder settings, and the inputs and mappings follow the planner's rules: the screen
  capture is always an input and always mapped; with system audio and a microphone the
  single graph \<^verbatim>\<open>[0:a][2:a]amix=inputs=2...[aout]\<close> mixes inputs 0 and 2, which are the
  pipe and the microphone, and \<^verbatim>\<open>[aout]\<close> is the only audio mapped; with one source its
  input is mapped directly (\<^verbatim>\<open>0:a\<close> the pipe, \<^verbatim>\<open>1:a\<close> the microphone); with none
  only the video is mapped. System audio is a source when the selector is not
  \<^verbatim>\<open>'None'\<close>; the microphone is one when the selected (or first detected) device is
  among the detected devices.
\<close>

theorem planner_maps_sources:
  "build_args cfg devs = input_args cfg devs @ map_args cfg devs @ output_args cfg
   \<and> plan_ok (input_args cfg devs) (map_args cfg devs) (screen_input cfg)
        (systemAudioDevice cfg \<noteq> ''None'')
        (if micOk cfg devs then Some (mappedMic cfg devs) else None)
   \<and> build_args_disk cfg devs tmpl =
        input_args_disk cfg devs @ map_args_disk cfg devs
        @ output_args_disk (string_of_int SEGMENT_DURATION) cfg tmpl
   \<and> build_args_v0 cfg devs tmpl =
        input_args_disk cfg devs @ map_args_disk cfg devs @ output_args_disk ''30'' cfg tmpl
   \<and> plan_ok (input_args_disk cfg devs) (map_args_disk cfg devs) ''desktop''
        (systemAudioDevice cfg \<noteq> ''None'')
        (if micOk cfg devs then Some (mappedMic cfg devs) else None)"
  using plan_memory [of cfg devs] plan_disk [of cfg devs]
  by (simp add: build_args_def build_args_disk_def build_args_v0_def)

theorem planner_maps_sources_witness:
  "map_targets (map_args default_config [''Mic'']) = [''1:v'', ''[aout]'']
   \<and> input_files (input_args default_config [''Mic'']) =
        [''pipe:0'', ''ddagrab=framerate=60:draw_mouse=1'', ''audio=Mic'']
   \<and> filter_graphs (map_args default_config [''Mic'']) =
        [''[0:a][2:a]amix=inputs=2:duration=longest[aout]'']
   \<and> map_targets (map_args (default_config\<lparr>systemAudioDevice := ''None''\<rparr>) []) = [''0:v'']
   \<and> plan_ok (input_args default_config [''Mic'']) (map_args default_config [''Mic''])
        (screen_input default_config) True (Some ''Mic'')"
  using planner_maps_sources [of default_config "[''Mic'']"]
  by (simp add: plan_defs input_args_def map_args_def eval_defs)

section \<open>Starting and stopping\<close>

text \<open>
  C4. \<^verbatim>\<open>startRecording\<close> called while recording returns at its first line: the state is
  the one before, nothing is done (no directory purge, no device query, hence no second
  recorder), and no continuation is registered. \<^verbatim>\<open>stopRecording\<close> called while not
  recording does the same. Both also hold for the IPC events that call them.
\<close>

theorem start_stop_idempotent:
  "(isRecording s \<longrightarrow> startRecording a tmp s = (s, [], Returned)
                      \<and> fire a (StartRecording tmp) s = (s, []))
   \<and> (\<not> isRecording s \<longrightarrow> stopRecording s = (s, []) \<and> fire a StopRecording s = (s, []))"
  by (simp add: startRecording_def stopRecording_def drop_completion_def)

theorem start_stop_idempotent_witness:
  "isRecording recording_state
   \<and> startRecording app0 DirCreatable recording_state = (recording_state, [], Returned)
   \<and> \<not> isRecording (initial_state default_config)
   \<and> stopRecording (initial_state default_config) = (initial_state default_config, [])"
  using start_stop_idempotent [of recording_state app0 DirCreatable]
    start_stop_idempotent [of "initial_state default_config" app0 DirCreatable]
  by (simp add: recording_state_def devicesResolved_def initial_state_def Let_def)

lemma other_effects:
  "\<not> config_write (Mkdir d)" "\<not> config_write (PurgeDir d)" "\<not> config_write ListDevices"
  "\<not> config_write (SpawnRecorder p args piped)" "\<not> config_write (StdinEnd p)"
  "\<not> config_write (Kill p sg)" "\<not> config_write (SetTimeout ms tm)"
  "\<not> config_write (SendRecordingState b)" "\<not> config_write SendStartSystemAudio"
  "\<not> config_write SendStopSystemAudio" "\<not> config_write (SetLoginItem b)"
  "\<not> config_write (Notify body)" "\<not> config_write (CreateWriteStream d)"
  "\<not> config_write (StreamWrite d c)" "\<not> config_write (StreamEnd d)"
  "\<not> config_write (WriteFile d ls)" "\<not> config_write (SpawnFfmpeg args)"
  "\<not> config_write (Unlink d)"
  by (simp_all add: config_write_def)

lemma writeLoop_no_config_write:
  "list_all (\<lambda>x. \<not> config_write x) written \<Longrightarrow>
   list_all (\<lambda>x. \<not> config_write x) (snd (writeLoop answers f chunks k isFlushed written))"
proof (induction answers f chunks k isFlushed written rule: writeLoop.induct)
  case (1 answers f chunks k isFlushed written)
  show ?case
  proof (cases "k < length chunks \<and> isFlushed")
    case True
    have "list_all (\<lambda>x. \<not> config_write x) (written @ [StreamWrite f (chunks ! k)])"
      using "1.prems" by (simp add: other_effects)
    from "1.IH" [OF True this] True show ?thesis
      by (subst writeLoop.simps) simp
  next
    case False
    with "1.prems" show ?thesis by (subst writeLoop.simps) auto
  qed
qed

lemma writeNext_no_config_write: "list_all (\<lambda>x. \<not> config_write x) (snd (writeNext answers j))"
  using writeLoop_no_config_write [of "[]" answers "tempFile j" "chunksCopy j" "i j" True]
  by (simp add: writeNext_def Let_def other_effects)

lemma startRecording_config:
  "config (fst (startRecording a tmp s)) = config s"
  "list_all (\<lambda>x. \<not> config_write x) (fst (snd (startRecording a tmp s)))"
  by (simp_all add: startRecording_def ensureDir_def other_effects split: dir_status.splits)

lemma saveReplay_config:
  "config (fst (saveReplay a e s)) = config s"
  "list_all (\<lambda>x. \<not> config_write x) (fst (snd (saveReplay a e s)))"
  using writeNext_no_config_write
  by (simp_all add: saveReplay_def ensureDir_def other_effects Let_def split: dir_status.splits)

lemma fire_keeps_config:
  assumes "\<not> writes_config ev"
  shows "config (fst (fire a ev s)) = config s
    \<and> list_all (\<lambda>x. \<not> config_write x) (snd (fire a ev s))"
  using assms writeNext_no_config_write
  by (cases ev)
     (simp_all add: writes_config_def drop_completion_def startRecording_config saveReplay_config
       killTimeout_def recorderExit_def recorderData_def extractError_def extractExit_def
       other_effects Let_def split: option.splits)

lemma run_keeps_config:
  "list_all (\<lambda>ev. \<not> writes_config ev) evs \<Longrightarrow>
   config (run a evs s) = config s \<and> list_all (\<lambda>x. \<not> config_write x) (trace a evs s)"
  by (induction evs arbitrary: s) (simp_all add: fire_keeps_config)

lemma launched_state:
  "run app0 launched (initial_state default_config) =
     \<lparr> isRecording = True, recordProcess = Some 1, recordingStartTime = 1000,
       useSystemAudio = True, videoBuffer = [], totalBytes = 0, config = default_config,
       isSavingReplay = False, mainWindow = True, fetches = 0, killTimers = 0,
       restartTimers = 0, procs = [1], jobs = [] \<rparr>"
  by (simp add: launched_def handler_defs Let_def)

lemma saveConfig_full:
  "saveConfig (full c) s
     = (s\<lparr>config := c\<rparr>,
        (if autoStart c \<noteq> autoStart (config s) then [SetLoginItem (autoStart c)] else [])
        @ [WriteConfig c])"
  by (simp add: saveConfig_def full_def assign_def or_old_def Let_def)

text \<open>
  C10. The continuation of \<^verbatim>\<open>startRecording\<close> sets \<^verbatim>\<open>config.autoRecord\<close> and nothing
  else of the configuration, and writes the configuration; so does a start through the
  event loop, when the buffer directory can be had. \<^verbatim>\<open>stopRecording\<close>, when recording,
  clears the flag and writes the configuration, and an application launched with the
  configuration it wrote does not start recording, while a launch with the flag set calls
  \<^verbatim>\<open>startRecording\<close>. No event other than these two and \<^verbatim>\<open>'save-config'\<close> changes or
  writes the configuration. But \<^verbatim>\<open>'save-config'\<close> does: \<^verbatim>\<open>Object.assign(config,
  newConfig)\<close> takes \<^verbatim>\<open>autoRecord\<close> from the renderer's object like any other field, and
  the renderer sends its whole copy. So after a stop followed by a change of a setting the
  application is not recording and the configuration on disk is the renderer's copy, flag
  included; after a start followed by a change of a setting it is recording and again the
  flag is the renderer's. The flag on disk then does not follow the last start or stop.
\<close>

theorem resume_flag_writers:
  "config (fst (devicesResolved devs pid t s)) = (config s)\<lparr>autoRecord := True\<rparr>
   \<and> isRecording (fst (devicesResolved devs pid t s))
   \<and> WriteConfig ((config s)\<lparr>autoRecord := True\<rparr>) \<in> set (snd (devicesResolved devs pid t s))
   \<and> (\<not> isRecording s \<and> tmp \<noteq> DirUncreatable \<and> pid \<notin> set (procs s) \<longrightarrow>
        config (run a [StartRecording tmp, DevicesResolved devs pid t] s)
          = (config s)\<lparr>autoRecord := True\<rparr>
        \<and> isRecording (run a [StartRecording tmp, DevicesResolved devs pid t] s))
   \<and> (isRecording s \<longrightarrow>
        config (fst (stopRecording s)) = (config s)\<lparr>autoRecord := False\<rparr>
        \<and> \<not> isRecording (fst (stopRecording s))
        \<and> WriteConfig ((config s)\<lparr>autoRecord := False\<rparr>) \<in> set (snd (stopRecording s))
        \<and> fire a (AppReady tmp) (initial_state (config (fst (stopRecording s))))
            = ((initial_state (config (fst (stopRecording s))))\<lparr>mainWindow := True\<rparr>,
               [SetLoginItem (autoStart (config s))]))
   \<and> (list_all (\<lambda>ev. \<not> writes_config ev) evs \<longrightarrow>
        config (run a evs s) = config s
        \<and> list_all (\<lambda>x. \<not> config_write x) (trace a evs s))
   \<and> fst (saveConfig (full c) s) = s\<lparr>config := c\<rparr>
   \<and> last (snd (saveConfig (full c) s)) = WriteConfig c
   \<and> (isRecording s \<longrightarrow>
        \<not> isRecording (run a [StopRecording, SaveConfig (full c)] s)
        \<and> config (run a [StopRecording, SaveConfig (full c)] s) = c)
   \<and> (\<not> isRecording s \<and> tmp \<noteq> DirUncreatable \<and> pid \<notin> set (procs s) \<longrightarrow>
        isRecording (run a [StartRecording tmp, DevicesResolved devs pid t, SaveConfig (full c)] s)
        \<and> config (run a [StartRecording tmp, DevicesResolved devs pid t, SaveConfig (full c)] s)
            = c)
   \<and> (\<not> autoRecord cfg \<longrightarrow>
        fire a (AppReady tmp) (initial_state cfg)
          = ((initial_state cfg)\<lparr>mainWindow := True\<rparr>, [SetLoginItem (autoStart cfg)]))
   \<and> (autoRecord cfg \<and> tmp \<noteq> DirUncreatable \<longrightarrow>
        fetches (fst (fire a (AppReady tmp) (initial_state cfg))) = 1
        \<and> ListDevices \<in> set (snd (fire a (AppReady tmp) (initial_state cfg))))"
proof -
  have frame: "list_all (\<lambda>ev. \<not> writes_config ev) evs \<longrightarrow>
        config (run a evs s) = config s
        \<and> list_all (\<lambda>x. \<not> config_write x) (trace a evs s)"
    using run_keeps_config [of evs a s] by blast
  have start_stop: "config (fst (devicesResolved devs pid t s)) = (config s)\<lparr>autoRecord := True\<rparr>
   \<and> isRecording (fst (devicesResolved devs pid t s))
   \<and> WriteConfig ((config s)\<lparr>autoRecord := True\<rparr>) \<in> set (snd (devicesResolved devs pid t s))
   \<and> (\<not> isRecording s \<and> tmp \<noteq> DirUncreatable \<and> pid \<notin> set (procs s) \<longrightarrow>
        config (run a [StartRecording tmp, DevicesResolved devs pid t] s)
          = (config s)\<lparr>autoRecord := True\<rparr>
        \<and> isRecording (run a [StartRecording tmp, DevicesResolved devs pid t] s))
   \<and> (isRecording s \<longrightarrow>
        config (fst (stopRecording s)) = (config s)\<lparr>autoRecord := False\<rparr>
        \<and> \<not> isRecording (fst (stopRecording s))
        \<and> WriteConfig ((config s)\<lparr>autoRecord := False\<rparr>) \<in> set (snd (stopRecording s))
        \<and> fire a (AppReady tmp) (initial_state (config (fst (stopRecording s))))
            = ((initial_state (config (fst (stopRecording s))))\<lparr>mainWindow := True\<rparr>,
               [SetLoginItem (autoStart (config s))]))"
    by (cases tmp)
       (simp_all add: devicesResolved_def stopRecording_def startRecording_def ensureDir_def
         drop_completion_def initial_state_def Let_def)
  have save: "fst (saveConfig (full c) s) = s\<lparr>config := c\<rparr>
   \<and> last (snd (saveConfig (full c) s)) = WriteConfig c"
    by (simp add: saveConfig_full)
  have after_stop: "isRecording s \<longrightarrow>
        \<not> isRecording (run a [StopRecording, SaveConfig (full c)] s)
        \<and> config (run a [StopRecording, SaveConfig (full c)] s) = c"
    by (simp add: saveConfig_full stopRecording_def Let_def)
  have after_start: "\<not> isRecording s \<and> tmp \<noteq> DirUncreatable \<and> pid \<notin> set (procs s) \<longrightarrow>
        isRecording (run a [StartRecording tmp, DevicesResolved devs pid t, SaveConfig (full c)] s)
        \<and> config (run a [StartRecording tmp, DevicesResolved devs pid t, SaveConfig (full c)] s)
            = c"
    by (cases tmp)
       (simp_all add: saveConfig_full devicesResolved_def startRecording_def ensureDir_def
         drop_completion_def Let_def)
  have launch: "(\<not> autoRecord cfg \<longrightarrow>
        fire a (AppReady tmp) (initial_state cfg)
          = ((initial_state cfg)\<lparr>mainWindow := True\<rparr>, [SetLoginItem (autoStart cfg)]))
   \<and> (autoRecord cfg \<and> tmp \<noteq> DirUncreatable \<longrightarrow>
        fetches (fst (fire a (AppReady tmp) (initial_state cfg))) = 1
        \<and> ListDevices \<in> set (snd (fire a (AppReady tmp) (initial_state cfg))))"
    by (cases tmp)
       (simp_all add: startRecording_def ensureDir_def drop_completion_def initial_state_def
         Let_def)
  show ?thesis using frame start_stop save after_stop after_start launch by blast
qed

theorem resume_flag_writers_witness:
  "isRecording (run app0 launched (initial_state default_config))
   \<and> \<not> autoRecord (config (fst (stopRecording (run app0 launched (initial_state default_config)))))
   \<and> \<not> isRecording (run app0 stale_after_stop (initial_state default_config))
   \<and> autoRecord (config (run app0 stale_after_stop (initial_state default_config)))
   \<and> fetches (fst (fire app0 (AppReady DirExists)
        (initial_state (config (run app0 stale_after_stop (initial_state default_config))))))
       = 1
   \<and> \<not> isRecording (run app0 [AppReady DirExists] (initial_state resume_off))
   \<and> isRecording (run app0 stale_after_start (initial_state resume_off))
   \<and> \<not> autoRecord (config (run app0 stale_after_start (initial_state resume_off)))
   \<and> fetches (fst (fire app0 (AppReady DirExists)
        (initial_state (config (run app0 stale_after_start (initial_state resume_off))))))
       = 0
   \<and> list_all (\<lambda>ev. \<not> writes_config ev) [KillTimeout, RecorderExit 1, WindowDestroyed]
   \<and> config (run app0 [KillTimeout, RecorderExit 1, WindowDestroyed]
        (fst (stopRecording (run app0 launched (initial_state default_config)))))
       = default_config\<lparr>autoRecord := False\<rparr>"
proof -
  let ?s = "run app0 launched (initial_state default_config)"
  let ?c = "default_config\<lparr>bitrate := ''20''\<rparr>"
  let ?r = "run app0 [AppReady DirExists] (initial_state resume_off)"
  let ?d = "resume_off\<lparr>bitrate := ''20''\<rparr>"
  let ?quiet = "[KillTimeout, RecorderExit 1, WindowDestroyed]"
  have rec: "isRecording ?s" and cfg: "config ?s = default_config"
    by (simp_all add: launched_state)
  have idle: "\<not> isRecording ?r \<and> (1::nat) \<notin> set (procs ?r)"
    by (simp add: resume_off_def default_config_def initial_state_def)
  have quiet: "list_all (\<lambda>ev. \<not> writes_config ev) ?quiet"
    by (simp add: writes_config_def)
  have stop_run: "run app0 stale_after_stop (initial_state default_config)
      = run app0 [StopRecording, SaveConfig (full ?c)] ?s"
    by (simp only: stale_after_stop_def run_append)
  have start_run: "run app0 stale_after_start (initial_state resume_off)
      = run app0 [StartRecording DirExists, DevicesResolved [''Mic''] 1 1000, SaveConfig (full ?d)] ?r"
    by (simp add: stale_after_start_def)
  note stop = resume_flag_writers [of "[]" 1 1000 ?s DirExists app0 ?quiet ?c ?c]
  note start = resume_flag_writers [of "[''Mic'']" 1 1000 ?r DirExists app0 "[]" ?d ?d]
  note kept = resume_flag_writers [of "[]" 1 1000 "fst (stopRecording ?s)" DirExists app0 ?quiet
      ?c ?c]
  have a: "\<not> autoRecord (config (fst (stopRecording ?s)))
      \<and> config (fst (stopRecording ?s)) = default_config\<lparr>autoRecord := False\<rparr>"
    using stop rec cfg by simp
  have b: "\<not> isRecording (run app0 stale_after_stop (initial_state default_config))
      \<and> config (run app0 stale_after_stop (initial_state default_config)) = ?c"
    using stop rec unfolding stop_run by blast
  have c: "isRecording (run app0 stale_after_start (initial_state resume_off))
      \<and> config (run app0 stale_after_start (initial_state resume_off)) = ?d"
    using start idle unfolding start_run by blast
  have d: "config (run app0 ?quiet (fst (stopRecording ?s))) = config (fst (stopRecording ?s))"
    using kept quiet by blast
  have e: "fetches (fst (fire app0 (AppReady DirExists) (initial_state ?c))) = 1"
    using stop by (simp add: default_config_def)
  have f: "fetches (fst (fire app0 (AppReady DirExists) (initial_state ?d))) = 0"
    using start by (simp add: resume_off_def default_config_def initial_state_def)
  have g: "autoRecord ?c \<and> \<not> autoRecord ?d"
    by (simp add: resume_off_def default_config_def)
  show ?thesis
    using rec idle quiet a b c d e f g by simp
qed

section \<open>The byte counter of the buffer\<close>

lemma evict_bytes:
  "snd (evict cutoff limit es b) - bytes_of (fst (evict cutoff limit es b)) = b - bytes_of es"
  by (induction es arbitrary: b) (simp_all add: bytes_of_def)

lemma recorderData_consistent:
  "totalBytes s = bytes_of (videoBuffer s) \<Longrightarrow>
   totalBytes (recorderData t1 t2 c s) = bytes_of (videoBuffer (recorderData t1 t2 c s))"
  using evict_bytes [of "cutoff_at (config s) t2" hardLimit
      "videoBuffer s @ [\<lparr>time = t1, chunk = c\<rparr>]" "totalBytes s + int (length c)"]
  by (simp add: recorderData_def Let_def bytes_of_def)

lemma startRecording_buffer:
  "videoBuffer (fst (startRecording a tmp s)) = videoBuffer s"
  "totalBytes (fst (startRecording a tmp s)) = totalBytes s"
  by (simp_all add: startRecording_def ensureDir_def split: dir_status.splits)

lemma stopRecording_buffer:
  "videoBuffer (fst (stopRecording s)) = videoBuffer s"
  "totalBytes (fst (stopRecording s)) = totalBytes s"
  by (simp_all add: stopRecording_def Let_def)

lemma saveReplay_buffer:
  "videoBuffer (fst (saveReplay a e s)) = videoBuffer s"
  "totalBytes (fst (saveReplay a e s)) = totalBytes s"
  by (simp_all add: saveReplay_def Let_def ensureDir_def split: dir_status.splits)

lemma saveConfig_buffer:
  "videoBuffer (fst (saveConfig nc s)) = videoBuffer s"
  "totalBytes (fst (saveConfig nc s)) = totalBytes s"
  by (simp_all add: saveConfig_def Let_def stopRecording_buffer)

lemma fire_consistent:
  assumes "consistent s"
  shows "consistent (fst (fire a ev s))"
proof (cases ev)
  case (RecorderData pid t1 t2 c)
  with assms show ?thesis
    using recorderData_consistent [of s t1 t2 c] by (simp add: consistent_def)
next
  case (DevicesResolved devs pid t)
  with assms show ?thesis
    by (simp add: consistent_def devicesResolved_def Let_def bytes_of_def)
qed (use assms in \<open>simp_all add: consistent_def drop_completion_def startRecording_buffer
      stopRecording_buffer saveReplay_buffer saveConfig_buffer killTimeout_def recorderExit_def
      extractError_def extractExit_def Let_def\<close>)

lemma run_consistent: "consistent s \<Longrightarrow> consistent (run a evs s)"
  by (induction evs arbitrary: s) (simp_all add: fire_consistent)

text \<open>
  C9. After any sequence of events from the initial state, \<^verbatim>\<open>totalBytes\<close> is the sum of
  the lengths of the chunks in \<^verbatim>\<open>videoBuffer\<close>: the continuation of \<^verbatim>\<open>startRecording\<close>
  resets both, the data handler adds what it pushes and subtracts what it shifts out, and
  no other handler writes either variable. So the test \<^verbatim>\<open>totalBytes > hardLimit\<close>
  compares the true size of the buffer.
\<close>

theorem totalBytes_is_buffer_size:
  "totalBytes (run a evs (initial_state cfg))
   = bytes_of (videoBuffer (run a evs (initial_state cfg)))"
  using run_consistent [of "initial_state cfg" a evs]
  by (simp add: consistent_def initial_state_def bytes_of_def)

theorem totalBytes_is_buffer_size_witness:
  "totalBytes (run app0 warm_up (initial_state default_config)) = 1200
   \<and> bytes_of (videoBuffer (run app0 warm_up (initial_state default_config))) = 1200"
proof -
  have "totalBytes (run app0 warm_up (initial_state default_config)) = 1200"
    by (simp add: warm_up_state)
  with totalBytes_is_buffer_size [of app0 warm_up default_config] show ?thesis
    by simp
qed

section \<open>Eviction\<close>

lemma evict_length_le: "length (fst (evict cutoff limit es b)) \<le> length es"
  by (induction es arbitrary: b) (auto simp: le_SucI)

lemma evict_suffix:
  "fst (evict cutoff limit es b) = drop (length es - length (fst (evict cutoff limit es b))) es"
proof (induction es arbitrary: b)
  case Nil
  then show ?case by simp
next
  case (Cons e es)
  show ?case
  proof (cases "length (e # es) > 2 \<and> (time e < cutoff \<or> b > limit)")
    case True
    have "length (fst (evict cutoff limit es (b - int (length (chunk e))))) \<le> length es"
      by (rule evict_length_le)
    then show ?thesis
      using True Cons.IH [of "b - int (length (chunk e))"] by (simp add: Suc_diff_le)
  next
    case False
    then show ?thesis by auto
  qed
qed

lemma evict_keeps_two: "min 2 (length es) \<le> length (fst (evict cutoff limit es b))"
proof (induction es arbitrary: b)
  case Nil
  then show ?case by simp
next
  case (Cons e es)
  show ?case
  proof (cases "length (e # es) > 2 \<and> (time e < cutoff \<or> b > limit)")
    case True
    then have "min 2 (length es) = 2" by simp
    with Cons.IH [of "b - int (length (chunk e))"] True show ?thesis by simp
  next
    case False
    then show ?thesis by auto
  qed
qed

lemma evict_stops:
  "2 < length (fst (evict cutoff limit es b)) \<Longrightarrow>
   cutoff \<le> time (hd (fst (evict cutoff limit es b))) \<and> snd (evict cutoff limit es b) \<le> limit"
  by (induction es arbitrary: b) (auto split: if_splits)

lemma evict_only_evictable:
  "j < length es - length (fst (evict cutoff limit es b)) \<Longrightarrow>
   2 < length es - j \<and> (time (es ! j) < cutoff \<or> limit < b - bytes_of (take j es))"
proof (induction es arbitrary: b j)
  case Nil
  then show ?case by simp
next
  case (Cons e es)
  show ?case
  proof (cases "length (e # es) > 2 \<and> (time e < cutoff \<or> b > limit)")
    case True
    show ?thesis
    proof (cases j)
      case 0
      with True show ?thesis by (simp add: bytes_of_def)
    next
      case (Suc j')
      have le: "length (fst (evict cutoff limit es (b - int (length (chunk e))))) \<le> length es"
        by (rule evict_length_le)
      from Cons.prems True Suc le
      have "j' < length es - length (fst (evict cutoff limit es (b - int (length (chunk e)))))"
        by (simp add: Suc_diff_le)
      from Cons.IH [OF this] Suc show ?thesis
        by (simp add: bytes_of_def algebra_simps)
    qed
  next
    case False
    with Cons.prems show ?thesis by auto
  qed
qed

lemma bytes_of_drop: "bytes_of es - bytes_of (take j es) = bytes_of (drop j es)"
proof -
  have "bytes_of (take j es @ drop j es) = bytes_of (take j es) + bytes_of (drop j es)"
    unfolding bytes_of_def by (simp only: map_append sum_list_append)
  then show ?thesis by simp
qed

lemma sorted_suffix_bound:
  assumes "sorted (map time es)" and "drop k es \<noteq> []" and "cutoff \<le> time (hd (drop k es))"
    and "e \<in> set (drop k es)"
  shows "cutoff \<le> time e"
proof -
  have "sorted (map time (drop k es))"
    using assms(1) by (simp add: sorted_wrt_drop drop_map [symmetric] del: drop_map)
  moreover obtain x xs where "drop k es = x # xs"
    using assms(2) by (cases "drop k es") auto
  ultimately show ?thesis using assms(3,4) by auto
qed

text \<open>
  C5, as amended. Take any state the application can reach, let \<open>pushed\<close> be its buffer
  with the new chunk appended and \<open>kept\<close> the buffer the data handler leaves. Then \<open>kept\<close>
  is \<open>pushed\<close> without its first \<open>k\<close> chunks; at least two chunks, or all of \<open>pushed\<close>,
  are kept; each chunk removed was, at its turn, the head of more than two chunks and
  either older than the cutoff or part of a buffer over the byte cap; and when more than
  two chunks are kept, the oldest kept chunk (the head) is not older than the cutoff and
  the bytes kept, which \<^verbatim>\<open>totalBytes\<close> counts, do not exceed the cap. That no kept chunk
  at all is older than the cutoff holds when the time stamps are in non-decreasing
  order: the loop only ever looks at the head. The cutoff is the second clock reading
  minus 1000 times (window + 15), the window being the parsed \<^verbatim>\<open>config.bufferTime\<close>, or
  300 when that is \<open>NaN\<close> or 0.
\<close>

theorem eviction_after_append:
  fixes a :: app and evs :: "event list" and cfg :: Config
    and t_push t_evict :: int and c :: buffer
  defines "s \<equiv> run a evs (initial_state cfg)"
    and "pushed \<equiv> videoBuffer (run a evs (initial_state cfg)) @ [\<lparr>time = t_push, chunk = c\<rparr>]"
    and "kept \<equiv> videoBuffer (recorderData t_push t_evict c (run a evs (initial_state cfg)))"
    and "cutoff \<equiv> cutoff_at (config (run a evs (initial_state cfg))) t_evict"
  shows "kept = drop (length pushed - length kept) pushed
     \<and> min 2 (length pushed) \<le> length kept
     \<and> (\<forall>j < length pushed - length kept.
           2 < length (drop j pushed)
           \<and> (time (pushed ! j) < cutoff \<or> hardLimit < bytes_of (drop j pushed)))
     \<and> (2 < length kept \<longrightarrow>
           cutoff \<le> time (hd kept) \<and> bytes_of kept \<le> hardLimit
           \<and> totalBytes (recorderData t_push t_evict c s) = bytes_of kept)
     \<and> (2 < length kept \<and> sorted (map time pushed) \<longrightarrow> (\<forall>e \<in> set kept. cutoff \<le> time e))"
proof -
  define b where "b = totalBytes s + int (length c)"
  have "consistent s"
    unfolding s_def by (rule run_consistent) (simp add: consistent_def initial_state_def bytes_of_def)
  then have consistent: "totalBytes s = bytes_of (videoBuffer s)"
    by (simp add: consistent_def)
  have kept: "kept = fst (evict cutoff hardLimit pushed b)"
    and total: "totalBytes (recorderData t_push t_evict c s) = snd (evict cutoff hardLimit pushed b)"
    by (simp_all add: kept_def pushed_def cutoff_def b_def s_def recorderData_def Let_def)
  have b: "b = bytes_of pushed"
    using consistent by (simp add: b_def pushed_def s_def bytes_of_def)
  have same: "snd (evict cutoff hardLimit pushed b) = bytes_of kept"
    using evict_bytes [of cutoff hardLimit pushed b] b kept by simp
  have suffix: "kept = drop (length pushed - length kept) pushed"
    unfolding kept by (rule evict_suffix)
  have two: "min 2 (length pushed) \<le> length kept"
    unfolding kept by (rule evict_keeps_two)
  have evictable: "2 < length (drop j pushed)
      \<and> (time (pushed ! j) < cutoff \<or> hardLimit < bytes_of (drop j pushed))"
    if "j < length pushed - length kept" for j
    using evict_only_evictable [of j pushed cutoff hardLimit b] that kept b
    by (simp add: bytes_of_drop)
  have stop: "cutoff \<le> time (hd kept) \<and> bytes_of kept \<le> hardLimit" if "2 < length kept"
    using evict_stops [of cutoff hardLimit pushed b] that same kept by simp
  have window: "cutoff \<le> time e"
    if "2 < length kept" and "sorted (map time pushed)" and "e \<in> set kept" for e
  proof -
    have "drop (length pushed - length kept) pushed \<noteq> []"
      using that(1) suffix by auto
    moreover have "cutoff \<le> time (hd (drop (length pushed - length kept) pushed))"
      using stop [OF that(1)] suffix by simp
    moreover have "e \<in> set (drop (length pushed - length kept) pushed)"
      using that(3) suffix by simp
    ultimately show ?thesis
      using sorted_suffix_bound [OF that(2)] by blast
  qed
  have tot: "totalBytes (recorderData t_push t_evict c s) = bytes_of kept"
    using total same by simp
  have ev: "\<forall>j < length pushed - length kept.
      2 < length (drop j pushed)
      \<and> (time (pushed ! j) < cutoff \<or> hardLimit < bytes_of (drop j pushed))"
    using evictable by blast
  have st: "2 < length kept \<longrightarrow>
      cutoff \<le> time (hd kept) \<and> bytes_of kept \<le> hardLimit
      \<and> totalBytes (recorderData t_push t_evict c s) = bytes_of kept"
    using stop tot by blast
  have w: "2 < length kept \<and> sorted (map time pushed) \<longrightarrow> (\<forall>e \<in> set kept. cutoff \<le> time e)"
    using window by blast
  show ?thesis
    by (rule conjI [OF suffix conjI [OF two conjI [OF ev conjI [OF st w]]]])
qed

theorem eviction_after_append_witness:
  "map time (videoBuffer (run app0 rolling (initial_state default_config)))
     = [2000, 3000, 310000, 311000]
   \<and> sorted (map time (videoBuffer (run app0 rolling (initial_state default_config))
                        @ [\<lparr>time = 320000, chunk = [3]\<rparr>]))
   \<and> cutoff_at (config (run app0 rolling (initial_state default_config))) 320000 = 5000
   \<and> map time (videoBuffer
        (recorderData 320000 320000 [3] (run app0 rolling (initial_state default_config))))
       = [310000, 311000, 320000]
   \<and> totalBytes (recorderData 320000 320000 [3] (run app0 rolling (initial_state default_config)))
       = 3
   \<and> list_all
        (\<lambda>e. cutoff_at (config (run app0 rolling (initial_state default_config))) 320000 \<le> time e)
        (videoBuffer
          (recorderData 320000 320000 [3] (run app0 rolling (initial_state default_config))))"
proof -
  let ?s = "run app0 rolling (initial_state default_config)"
  have a: "map time (videoBuffer ?s) = [2000, 3000, 310000, 311000]"
    by (simp add: rolling_state)
  have b: "sorted (map time (videoBuffer ?s @ [\<lparr>time = 320000, chunk = [3]\<rparr>]))"
    by (simp add: rolling_state)
  have d: "map time (videoBuffer (recorderData 320000 320000 [3] ?s)) = [310000, 311000, 320000]"
    by (simp add: rolling_append)
  have "2 < length (videoBuffer (recorderData 320000 320000 [3] ?s))"
    by (simp add: rolling_append)
  with eviction_after_append [where a = app0 and evs = rolling and cfg = default_config
      and t_push = 320000 and t_evict = 320000 and c = "[3]"] b
  have "\<forall>e \<in> set (videoBuffer (recorderData 320000 320000 [3] ?s)).
          cutoff_at (config ?s) 320000 \<le> time e"
    by blast
  then have f: "list_all (\<lambda>e. cutoff_at (config ?s) 320000 \<le> time e)
        (videoBuffer (recorderData 320000 320000 [3] ?s))"
    by (simp add: list_all_iff)
  show ?thesis using a b d f rolling_append(2,3) by blast
qed

text \<open>
  The claim as stated fails when the clock steps back between two chunks: after the run
  \<open>skewed\<close> four chunks are kept, and the second is far older than the cutoff.
\<close>

lemma skewed_state:
  "videoBuffer (run app0 skewed (initial_state default_config))
     = [\<lparr>time = 1000000, chunk = [1]\<rparr>, \<lparr>time = 0, chunk = [2]\<rparr>,
        \<lparr>time = 1000001, chunk = [3]\<rparr>, \<lparr>time = 1000002, chunk = [4]\<rparr>]"
  "config (run app0 skewed (initial_state default_config)) = default_config"
  by (simp_all add: skewed_def handler_defs parse_300 Let_def)

theorem stale_chunk_retained:
  "2 < length (videoBuffer (run app0 skewed (initial_state default_config)))
   \<and> time (videoBuffer (run app0 skewed (initial_state default_config)) ! 1)
       < cutoff_at (config (run app0 skewed (initial_state default_config))) 1000002"
  unfolding skewed_state
  by (simp add: cutoff_at_def default_config_def parse_300 or_default_def)

section \<open>Extraction\<close>

lemma startRecording_lock:
  "jobs (fst (startRecording a tmp s)) = jobs s"
  "isSavingReplay (fst (startRecording a tmp s)) = isSavingReplay s"
  by (simp_all add: startRecording_def ensureDir_def split: dir_status.splits)

lemma stopRecording_lock:
  "jobs (fst (stopRecording s)) = jobs s"
  "isSavingReplay (fst (stopRecording s)) = isSavingReplay s"
  by (simp_all add: stopRecording_def Let_def)

lemma saveConfig_lock:
  "jobs (fst (saveConfig nc s)) = jobs s"
  "isSavingReplay (fst (saveConfig nc s)) = isSavingReplay s"
  by (simp_all add: saveConfig_def Let_def stopRecording_lock)

lemma recorderData_lock:
  "jobs (recorderData t1 t2 c s) = jobs s"
  "isSavingReplay (recorderData t1 t2 c s) = isSavingReplay s"
  by (simp_all add: recorderData_def Let_def)

lemma devicesResolved_lock:
  "jobs (fst (devicesResolved devs pid t s)) = jobs s"
  "isSavingReplay (fst (devicesResolved devs pid t s)) = isSavingReplay s"
  by (simp_all add: devicesResolved_def Let_def)

lemma saveReplay_locked: "isSavingReplay s \<Longrightarrow> saveReplay a e s = (s, [], Returned)"
  by (simp add: saveReplay_def)

lemma saveReplay_disk_locked: "isSavingReplay s \<Longrightarrow> saveReplay_disk a d s = (s, [], Returned)"
  by (simp add: saveReplay_disk_def)

lemma saveReplay_single_flight:
  "single_flight s \<Longrightarrow> single_flight (fst (saveReplay a e s))"
  by (auto simp: single_flight_def saveReplay_def Let_def ensureDir_def split: dir_status.splits)

lemma without_single: "length xs = 1 \<Longrightarrow> k < length xs \<Longrightarrow> without k xs = []"
  by (cases xs) (auto simp: without_def)

lemma fire_single_flight:
  assumes "single_flight s"
  shows "single_flight (fst (fire a ev s))"
proof (cases ev)
  case (SaveReplay e)
  with assms show ?thesis
    using saveReplay_single_flight [of s a e] by (simp add: drop_completion_def)
next
  case (StreamError k)
  with assms show ?thesis
    by (auto simp: single_flight_def in_phase_def without_single)
next
  case (ExtractError k msg ex)
  with assms show ?thesis
    by (auto simp: single_flight_def in_phase_def without_single extractError_def)
next
  case (ExtractExit k code ex)
  with assms show ?thesis
    by (auto simp: single_flight_def in_phase_def without_single extractExit_def)
qed (use assms in \<open>auto simp: single_flight_def drop_completion_def startRecording_lock
      stopRecording_lock saveConfig_lock recorderData_lock devicesResolved_lock killTimeout_def
      recorderExit_def Let_def\<close>)

lemma run_single_flight: "single_flight s \<Longrightarrow> single_flight (run a evs s)"
  by (induction evs arbitrary: s) (simp_all add: fire_single_flight)

lemma saveReplay_disk_single_flight:
  "single_flight s \<Longrightarrow> single_flight (fst (saveReplay_disk a e s))"
  by (auto simp: single_flight_def saveReplay_disk_def Let_def ensureDir_def
      split: dir_status.splits option.splits)

lemma fire_disk_single_flight:
  assumes "single_flight s"
  shows "single_flight (fst (fire_disk a ev s))"
proof (cases ev)
  case (SaveReplayDisk e)
  with assms show ?thesis
    using saveReplay_disk_single_flight [of s a e] by (simp add: drop_completion_def)
next
  case (ConcatExit k code)
  with assms show ?thesis
    by (auto simp: single_flight_def in_phase_def without_single concatExit_def Let_def)
qed (use assms in \<open>auto simp: single_flight_def in_phase_def without_single concatError_def
      trimError_def trimExit_def\<close>)

lemma run_disk_single_flight: "single_flight s \<Longrightarrow> single_flight (run_disk a evs s)"
  by (induction evs arbitrary: s) (simp_all add: fire_disk_single_flight)

text \<open>
  C3. While \<^verbatim>\<open>isSavingReplay\<close> is set, \<^verbatim>\<open>saveReplay\<close> returns with the state it was
  given and does nothing: it writes no file, spawns no process, shows no notification and
  leaves the extraction in flight (an element of \<open>jobs\<close>) as it is; this holds in the
  memory revision and in the disk revision. And after any sequence of events from the
  initial state at most one extraction is in flight, in either revision. (The oldest
  revision has no \<^verbatim>\<open>isSavingReplay\<close>.)
\<close>

theorem extraction_single_flight:
  "(isSavingReplay s \<longrightarrow>
      saveReplay a e s = (s, [], Returned) \<and> fire a (SaveReplay e) s = (s, [])
      \<and> saveReplay_disk a d s = (s, [], Returned) \<and> fire_disk a (SaveReplayDisk d) s = (s, []))
   \<and> length (jobs (run a evs (initial_state cfg))) \<le> 1
   \<and> length (jobs (run_disk a evs' (initial_state cfg))) \<le> 1"
proof -
  have init: "single_flight (initial_state cfg)"
    by (simp add: single_flight_def initial_state_def)
  have "single_flight (run a evs (initial_state cfg))"
    using init by (rule run_single_flight)
  then have memory: "length (jobs (run a evs (initial_state cfg))) \<le> 1"
    by (auto simp: single_flight_def)
  have "single_flight (run_disk a evs' (initial_state cfg))"
    using init by (rule run_disk_single_flight)
  then have disk: "length (jobs (run_disk a evs' (initial_state cfg))) \<le> 1"
    by (auto simp: single_flight_def)
  show ?thesis
    using memory disk
    by (simp add: saveReplay_locked saveReplay_disk_locked drop_completion_def)
qed

lemma one_segment_state:
  "run_disk app0 [RecordingChanged True, SaveReplayDisk one_segment] (initial_state default_config)
     = (initial_state default_config)
         \<lparr> isRecording := True, isSavingReplay := True,
           jobs := [\<lparr> tempFile = path_join ''T'' ''temp_concat_4000.mp4'',
                       outputFile = path_join ''V'' ''ShadowWarp_Replay_2026-11-02_10-00-00.mp4'',
                       chunksCopy = [], i = 0, bufferSecs = Some 300,
                       phase = Concatenating \<rparr>] \<rparr>"
  by (simp add: saveReplay_disk_def one_segment_def ends_with_def sort_names_def
      drop_completion_def ensureDir_def initial_state_def default_config_def app0_def parse_300
      Let_def string_of_int_def decimal.simps decimal_digits_def)

theorem extraction_single_flight_witness:
  "isSavingReplay (run app0 in_flight (initial_state default_config))
   \<and> length (jobs (run app0 in_flight (initial_state default_config))) = 1
   \<and> saveReplay app0 slow_disk (run app0 in_flight (initial_state default_config))
       = (run app0 in_flight (initial_state default_config), [], Returned)
   \<and> saveReplay_disk app0 no_segments (run app0 in_flight (initial_state default_config))
       = (run app0 in_flight (initial_state default_config), [], Returned)
   \<and> length (jobs (run app0 (in_flight @ [SaveReplay slow_disk]) (initial_state default_config)))
       \<le> 1
   \<and> length (jobs (run_disk app0 [RecordingChanged True, SaveReplayDisk one_segment]
        (initial_state default_config))) = 1
   \<and> length (jobs (run_disk app0
        [RecordingChanged True, SaveReplayDisk one_segment, SaveReplayDisk one_segment]
        (initial_state default_config))) \<le> 1"
proof -
  have a: "isSavingReplay (run app0 in_flight (initial_state default_config))"
    and b: "length (jobs (run app0 in_flight (initial_state default_config))) = 1"
    by (simp_all add: in_flight_state)
  have c: "length (jobs (run_disk app0 [RecordingChanged True, SaveReplayDisk one_segment]
        (initial_state default_config))) = 1"
    by (subst one_segment_state) simp
  show ?thesis
    using a b c
      extraction_single_flight [of "run app0 in_flight (initial_state default_config)" app0
        slow_disk no_segments "in_flight @ [SaveReplay slow_disk]" default_config
        "[RecordingChanged True, SaveReplayDisk one_segment, SaveReplayDisk one_segment]"]
    by blast
qed

lemma set_insert_sorted: "set (insert_sorted x xs) = insert x (set xs)"
  by (induction xs) auto

lemma set_sort_names: "set (sort_names xs) = set xs"
  unfolding sort_names_def by (induction xs) (simp_all add: set_insert_sorted)

lemma no_usable_files:
  assumes "list_all (\<lambda>f. \<not> usable f) names"
  shows "concat (map (\<lambda>f. case snd f of None \<Rightarrow> []
            | Some sz \<Rightarrow> if sz > 0 then [(path_join dir (fst f), sz)] else [])
          (sort_names (filter (\<lambda>f. ends_with (fst f) ''.ts'') names))) = []"
proof -
  have "\<forall>f \<in> set (sort_names (filter (\<lambda>f. ends_with (fst f) ''.ts'') names)).
          (case snd f of None \<Rightarrow> []
           | Some sz \<Rightarrow> if sz > 0 then [(path_join dir (fst f), sz)] else []) = []"
    using assms by (auto simp: set_sort_names list_all_iff usable_def split: option.splits)
  then show ?thesis by simp
qed

lemma tiny_segment_result:
  "saveReplay_disk app0 tiny_segment (run_disk app0 [RecordingChanged True] (initial_state default_config))
     = ((initial_state default_config)
          \<lparr> isRecording := True, isSavingReplay := True,
            jobs := [\<lparr> tempFile = path_join ''T'' ''temp_concat_4000.mp4'',
                       outputFile = path_join ''V'' ''ShadowWarp_Replay_2026-11-02_10-00-00.mp4'',
                       chunksCopy = [], i = 0, bufferSecs = Some 300,
                       phase = Concatenating \<rparr>] \<rparr>,
        [WriteFile (path_join ''T'' ''concat.txt'')
           [concat_line (path_join ''T'' ''buffer_20261102100000.ts'')],
         SpawnFfmpeg (concat_args (path_join ''T'' ''concat.txt'')
           (path_join ''T'' ''temp_concat_4000.mp4''))],
        Returned)"
  by (simp add: saveReplay_disk_def tiny_segment_def ends_with_def sort_names_def
      drop_completion_def ensureDir_def initial_state_def default_config_def app0_def parse_300
      Let_def string_of_int_def decimal.simps decimal_digits_def js_slice_def segmentsNeeded_def
      neg_number_def SEGMENT_DURATION_def)

text \<open>
  C6, as amended. When \<^verbatim>\<open>saveReplay\<close> is called while recording and with no extraction
  in flight, and the buffer is empty, or holds less than 1024 bytes in the memory
  revision, it returns with the state it was given, so the lock is not taken and no
  extraction is registered, and all it does is show the notification
  \<^verbatim>\<open>No video buffered yet.\<close> or \<^verbatim>\<open>Not enough video buffered yet.\<close>: no file is created
  or written, no process spawned. The buffer of the memory revision is empty when
  \<^verbatim>\<open>videoBuffer\<close> has no chunk, and it holds what \<^verbatim>\<open>totalBytes\<close> counts, which in every
  reachable state is the sum of the lengths of its chunks. The buffer of the disk revision
  is empty when the buffer directory can be listed and has no \<^verbatim>\<open>.ts\<close> file of a size
  above 0. Called while an extraction is in flight, either revision returns with the
  state it was given and does nothing, whatever the buffer holds.
\<close>

theorem insufficient_buffer:
  "(isRecording s \<and> \<not> isSavingReplay s \<longrightarrow>
     (videoBuffer s = [] \<longrightarrow>
        saveReplay a e s = (s, [Notify ''No video buffered yet.''], Returned))
     \<and> (videoBuffer s \<noteq> [] \<and> totalBytes s < 1024 \<longrightarrow>
        saveReplay a e s = (s, [Notify ''Not enough video buffered yet.''], Returned))
     \<and> (listing d = Some names \<and> list_all (\<lambda>f. \<not> usable f) names \<longrightarrow>
        saveReplay_disk a d s = (s, [Notify ''No video buffered yet.''], Returned)))
   \<and> (isRecording (run a evs (initial_state cfg))
       \<and> \<not> isSavingReplay (run a evs (initial_state cfg))
       \<and> bytes_of (videoBuffer (run a evs (initial_state cfg))) < 1024 \<longrightarrow>
        saveReplay a e (run a evs (initial_state cfg))
          = (run a evs (initial_state cfg), [Notify ''No video buffered yet.''], Returned)
        \<or> saveReplay a e (run a evs (initial_state cfg))
          = (run a evs (initial_state cfg), [Notify ''Not enough video buffered yet.''], Returned))
   \<and> (isRecording s \<and> isSavingReplay s \<longrightarrow>
        saveReplay a e s = (s, [], Returned) \<and> saveReplay_disk a d s = (s, [], Returned))"
proof -
  have "consistent (initial_state cfg)"
    by (simp add: consistent_def initial_state_def bytes_of_def)
  then have "consistent (run a evs (initial_state cfg))"
    by (rule run_consistent)
  then have counted: "totalBytes (run a evs (initial_state cfg))
      = bytes_of (videoBuffer (run a evs (initial_state cfg)))"
    by (simp add: consistent_def)
  show ?thesis
    using no_usable_files [of names "tempDir a"] counted
    by (simp add: saveReplay_def saveReplay_disk_def Let_def)
qed

theorem insufficient_buffer_witness:
  "isRecording recording_state \<and> \<not> isSavingReplay recording_state
   \<and> videoBuffer recording_state = []
   \<and> saveReplay app0 slow_disk recording_state
       = (recording_state, [Notify ''No video buffered yet.''], Returned)
   \<and> saveReplay_disk app0 no_segments recording_state
       = (recording_state, [Notify ''No video buffered yet.''], Returned)
   \<and> videoBuffer (run app0 trickle (initial_state default_config)) \<noteq> []
   \<and> totalBytes (run app0 trickle (initial_state default_config)) < 1024
   \<and> bytes_of (videoBuffer (run app0 trickle (initial_state default_config))) = 3
   \<and> saveReplay app0 slow_disk (run app0 trickle (initial_state default_config))
       = (run app0 trickle (initial_state default_config),
          [Notify ''Not enough video buffered yet.''], Returned)"
proof -
  let ?t = "run app0 trickle (initial_state default_config)"
  have r: "isRecording recording_state \<and> \<not> isSavingReplay recording_state
      \<and> videoBuffer recording_state = []"
    by (simp add: recording_state_eval)
  have g: "isRecording ?t \<and> \<not> isSavingReplay ?t \<and> videoBuffer ?t \<noteq> [] \<and> totalBytes ?t < 1024
      \<and> bytes_of (videoBuffer ?t) = 3"
    by (simp add: trickle_state bytes_of_def)
  have n: "listing no_segments
        = Some [(''concat.txt'', Some 120), (''buffer_20261102100000.ts'', Some 0)]
      \<and> list_all (\<lambda>f. \<not> usable f)
          [(''concat.txt'', Some 120), (''buffer_20261102100000.ts'', Some 0)]"
    by (simp add: no_segments_def usable_def ends_with_def)
  show ?thesis
    using r g n
      insufficient_buffer [of recording_state app0 slow_disk no_segments
        "[(''concat.txt'', Some 120), (''buffer_20261102100000.ts'', Some 0)]" "[]" default_config]
      insufficient_buffer [of ?t app0 slow_disk no_segments
        "[(''concat.txt'', Some 120), (''buffer_20261102100000.ts'', Some 0)]" trickle
        default_config]
    by simp
qed

text \<open>
  The claim as stated fails in three ways. While an extraction is in flight: after the
  run \<open>restarted\<close> the application is recording and the buffer is empty, and
  \<^verbatim>\<open>saveReplay\<close> returns without any notification, because the test of the lock comes
  first. In the disk revision, which has no test of the number of bytes: with a single
  segment of one byte in the buffer directory \<^verbatim>\<open>saveReplay\<close> takes the lock, writes the
  concat list and spawns the first pass, and shows no notification. And in the disk
  revision when the buffer directory cannot be listed: \<^verbatim>\<open>readdirSync\<close> throws out of
  \<^verbatim>\<open>saveReplay\<close> before anything is shown.
\<close>

theorem insufficient_buffer_not_reported:
  "isRecording (run app0 restarted (initial_state default_config))
   \<and> videoBuffer (run app0 restarted (initial_state default_config)) = []
   \<and> fst (snd (saveReplay app0 slow_disk (run app0 restarted (initial_state default_config))))
       = []
   \<and> isRecording (run_disk app0 [RecordingChanged True] (initial_state default_config))
   \<and> \<not> isSavingReplay (run_disk app0 [RecordingChanged True] (initial_state default_config))
   \<and> listing tiny_segment = Some [(''buffer_20261102100000.ts'', Some 1)]
   \<and> isSavingReplay (fst (saveReplay_disk app0 tiny_segment
        (run_disk app0 [RecordingChanged True] (initial_state default_config))))
   \<and> fst (snd (saveReplay_disk app0 tiny_segment
        (run_disk app0 [RecordingChanged True] (initial_state default_config))))
       = [WriteFile (path_join ''T'' ''concat.txt'')
            [concat_line (path_join ''T'' ''buffer_20261102100000.ts'')],
          SpawnFfmpeg (concat_args (path_join ''T'' ''concat.txt'')
            (path_join ''T'' ''temp_concat_4000.mp4''))]
   \<and> listing unreadable = None
   \<and> saveReplay_disk app0 unreadable
        (run_disk app0 [RecordingChanged True] (initial_state default_config))
       = (run_disk app0 [RecordingChanged True] (initial_state default_config), [], Thrown)"
proof -
  have held: "isRecording (run app0 restarted (initial_state default_config))
   \<and> videoBuffer (run app0 restarted (initial_state default_config)) = []
   \<and> fst (snd (saveReplay app0 slow_disk (run app0 restarted (initial_state default_config))))
       = []"
    unfolding restarted_state by (simp add: saveReplay_def)
  have started: "isRecording (run_disk app0 [RecordingChanged True] (initial_state default_config))
   \<and> \<not> isSavingReplay (run_disk app0 [RecordingChanged True] (initial_state default_config))"
    by (simp add: initial_state_def)
  have tiny: "listing tiny_segment = Some [(''buffer_20261102100000.ts'', Some 1)]
   \<and> isSavingReplay (fst (saveReplay_disk app0 tiny_segment
        (run_disk app0 [RecordingChanged True] (initial_state default_config))))
   \<and> fst (snd (saveReplay_disk app0 tiny_segment
        (run_disk app0 [RecordingChanged True] (initial_state default_config))))
       = [WriteFile (path_join ''T'' ''concat.txt'')
            [concat_line (path_join ''T'' ''buffer_20261102100000.ts'')],
          SpawnFfmpeg (concat_args (path_join ''T'' ''concat.txt'')
            (path_join ''T'' ''temp_concat_4000.mp4''))]"
    unfolding tiny_segment_result by (simp add: tiny_segment_def)
  have thrown: "listing unreadable = None
   \<and> saveReplay_disk app0 unreadable
        (run_disk app0 [RecordingChanged True] (initial_state default_config))
       = (run_disk app0 [RecordingChanged True] (initial_state default_config), [], Thrown)"
    by (simp add: saveReplay_disk_def unreadable_def initial_state_def Let_def)
  show ?thesis using held started tiny thrown by blast
qed

subsection \<open>Releasing the lock\<close>

text \<open>
  Every listener of an extraction process releases the lock, except the exit of a
  successful concat pass, which goes on to the trim pass.
\<close>

lemma listeners_release_lock:
  "\<not> isSavingReplay (fst (extractError msg ex j s))"
  "\<not> isSavingReplay (fst (extractExit code ex j s))"
  "\<not> isSavingReplay (fst (concatError msg j s))"
  "code \<noteq> Some 0 \<Longrightarrow> \<not> isSavingReplay (fst (concatExit code j s))"
  "\<not> isSavingReplay (fst (trimError msg j s))"
  "\<not> isSavingReplay (fst (trimExit code outSize j s))"
  by (simp_all add: extractError_def extractExit_def concatError_def concatExit_def
      trimError_def trimExit_def)

lemma fire_stuck:
  assumes "stuck s"
  shows "stuck (fst (fire a ev s))"
  using assms
  by (cases ev)
     (simp_all add: stuck_def drop_completion_def startRecording_lock stopRecording_lock
       saveConfig_lock recorderData_lock devicesResolved_lock saveReplay_locked killTimeout_def
       recorderExit_def in_phase_def Let_def)

lemma run_stuck: "stuck s \<Longrightarrow> stuck (run a evs s)"
  by (induction evs arbitrary: s) (simp_all add: fire_stuck)

lemma fire_disk_stuck:
  assumes "stuck s"
  shows "stuck (fst (fire_disk a ev s))"
  using assms
  by (cases ev)
     (simp_all add: stuck_def drop_completion_def saveReplay_disk_locked in_phase_def)

lemma run_disk_stuck: "stuck s \<Longrightarrow> stuck (run_disk a evs s)"
  by (induction evs arbitrary: s) (simp_all add: fire_disk_stuck)

text \<open>
  An error of the write stream has no listener; the extraction ends there, with the lock
  held.
\<close>

lemma stream_error_leaves_lock:
  "stuck (run app0 (in_flight @ StreamError 0 # evs) (initial_state default_config))"
proof -
  have "stuck (fst (fire app0 (StreamError 0) (run app0 in_flight (initial_state default_config))))"
    unfolding in_flight_state by (simp add: stuck_def in_phase_def without_def)
  then have "stuck (run app0 evs
      (fst (fire app0 (StreamError 0) (run app0 in_flight (initial_state default_config)))))"
    by (rule run_stuck)
  then show ?thesis by (simp add: run_append)
qed

text \<open>
  C2 fails on the code. With two chunks of 600 bytes buffered and an output folder that
  cannot be created, \<^verbatim>\<open>ensureDir\<close> throws after \<^verbatim>\<open>isSavingReplay = true\<close>: the call
  ends with the lock set, nothing written and no process spawned, so no listener exists
  that would clear it. Whatever events follow (\<open>evs\<close>), the lock stays set and every later
  \<^verbatim>\<open>saveReplay\<close> is dropped. In the disk revision \<^verbatim>\<open>writeFileSync\<close> of the concat list
  throws at the same point, with the same end.
\<close>

theorem lock_stuck_after_exception:
  "saveReplay app0 folder_gone (run app0 warm_up (initial_state default_config))
     = ((run app0 warm_up (initial_state default_config))\<lparr>isSavingReplay := True\<rparr>, [], Thrown)
   \<and> isSavingReplay
       (run app0 (warm_up @ SaveReplay folder_gone # evs) (initial_state default_config))
   \<and> jobs (run app0 (warm_up @ SaveReplay folder_gone # evs) (initial_state default_config)) = []
   \<and> fire app0 (SaveReplay slow_disk)
        (run app0 (warm_up @ SaveReplay folder_gone # evs) (initial_state default_config))
      = (run app0 (warm_up @ SaveReplay folder_gone # evs) (initial_state default_config), [])
   \<and> saveReplay_disk app0 list_unwritable ((initial_state default_config)\<lparr>isRecording := True\<rparr>)
      = ((initial_state default_config)\<lparr>isRecording := True, isSavingReplay := True\<rparr>,
         [], Thrown)
   \<and> isSavingReplay
       (run_disk app0 (RecordingChanged True # SaveReplayDisk list_unwritable # evs')
          (initial_state default_config))"
proof -
  let ?w = "run app0 warm_up (initial_state default_config)"
  let ?r = "(initial_state default_config)\<lparr>isRecording := True\<rparr>"
  have thrown: "saveReplay app0 folder_gone ?w = (?w\<lparr>isSavingReplay := True\<rparr>, [], Thrown)"
    unfolding warm_up_state
    by (simp add: saveReplay_def ensureDir_def folder_gone_def Let_def)
  have "stuck (fst (fire app0 (SaveReplay folder_gone) ?w))"
    unfolding fire.simps drop_completion_def thrown
    by (simp add: stuck_def warm_up_state)
  then have "stuck (run app0 evs (fst (fire app0 (SaveReplay folder_gone) ?w)))"
    by (rule run_stuck)
  then have later:
    "stuck (run app0 (warm_up @ SaveReplay folder_gone # evs) (initial_state default_config))"
    by (simp add: run_append)
  have disk: "saveReplay_disk app0 list_unwritable ?r
      = ((initial_state default_config)\<lparr>isRecording := True, isSavingReplay := True\<rparr>,
         [], Thrown)"
    by (simp add: saveReplay_disk_def list_unwritable_def ends_with_def sort_names_def
        initial_state_def Let_def)
  have "stuck (fst (fire_disk app0 (SaveReplayDisk list_unwritable) ?r))"
    unfolding fire_disk.simps drop_completion_def disk
    by (simp add: stuck_def initial_state_def)
  then have "stuck (run_disk app0 evs' (fst (fire_disk app0 (SaveReplayDisk list_unwritable) ?r)))"
    by (rule run_disk_stuck)
  then have later_disk:
    "stuck (run_disk app0 (RecordingChanged True # SaveReplayDisk list_unwritable # evs')
       (initial_state default_config))"
    by simp
  show ?thesis
    using thrown later disk later_disk
    by (simp add: stuck_def saveReplay_locked drop_completion_def)
qed

theorem lock_stuck_after_exception_witness:
  "isSavingReplay
     (run app0 (warm_up @ SaveReplay folder_gone
                # [ExtractExit 0 (Some 0) True, StopRecording, SaveReplay slow_disk])
        (initial_state default_config))
   \<and> isSavingReplay
       (run_disk app0 (RecordingChanged True # SaveReplayDisk list_unwritable
                       # [TrimExit 0 (Some 0) (Some 4096), SaveReplayDisk one_segment])
          (initial_state default_config))"
  using lock_stuck_after_exception
    [of "[ExtractExit 0 (Some 0) True, StopRecording, SaveReplay slow_disk]"
        "[TrimExit 0 (Some 0) (Some 4096), SaveReplayDisk one_segment]"]
  by blast

subsection \<open>The artifact after the last pass\<close>

text \<open>
  The extraction of \<open>in_flight\<close> run to its end: the rest of the dump is written, the
  extract pass is spawned and exits with code 0, the dump is removed and the replay is
  reported as saved; the state is the one before the extraction.
\<close>

lemma extraction_completes:
  "trace app0 [StreamDrain 0 [], StreamFinish 0, ExtractExit 0 (Some 0) True]
     (run app0 in_flight (initial_state default_config))
   = [StreamWrite (path_join ''T'' ''dump_4000.ts'') (replicate 600 0),
      StreamEnd (path_join ''T'' ''dump_4000.ts''),
      SpawnFfmpeg [''-y'', ''-sseof'', ''-300'', ''-i'', path_join ''T'' ''dump_4000.ts'',
        ''-c'', ''copy'', ''-movflags'', ''+faststart'',
        path_join ''V'' ''ShadowWarp_Replay_2026-11-02_10-00-00.mp4''],
      Unlink (path_join ''T'' ''dump_4000.ts''), Notify replay_saved]"
  "run app0 [StreamDrain 0 [], StreamFinish 0, ExtractExit 0 (Some 0) True]
     (run app0 in_flight (initial_state default_config))
   = run app0 warm_up (initial_state default_config)"
  unfolding in_flight_state warm_up_state
  by (simp_all add: in_phase_def writeNext_def writeLoop.simps extract_args_def extractExit_def
      without_def string_of_number_def string_of_int_def decimal.simps decimal_digits_def Let_def)

lemma trimExit_validates:
  "trimExit (Some 0) (Some sz) j s =
     (s\<lparr>isSavingReplay := False\<rparr>,
      Unlink (tempFile j)
      # (if sz < 1024
         then [Notify ''Replay save failed: output file is empty.'', Unlink (outputFile j)]
         else [Notify replay_saved]))"
  by (simp add: trimExit_def)

text \<open>
  C8 fails on the memory revision. When the extract pass exits with code 0, the handler
  releases the lock, removes the dump if it is there and shows \<^verbatim>\<open>Replay saved!\<close>; it
  never looks at the artifact, so an empty or missing one is reported as saved and left
  in place. The disk revision's handler does what the claim says: an artifact of 0 bytes
  (of less than 1024, \<open>trimExit_validates\<close>) is deleted and reported as empty.
\<close>

theorem extract_exit_skips_validation:
  "extractExit (Some 0) dumpExists j s =
     (s\<lparr>isSavingReplay := False\<rparr>,
      (if dumpExists then [Unlink (tempFile j)] else []) @ [Notify replay_saved])
   \<and> trimExit (Some 0) (Some 0) j s =
     (s\<lparr>isSavingReplay := False\<rparr>,
      [Unlink (tempFile j), Notify ''Replay save failed: output file is empty.'',
       Unlink (outputFile j)])"
  by (simp add: extractExit_def trimExit_def)

theorem extract_exit_skips_validation_witness:
  "snd (extractExit (Some 0) True some_job recording_state)
     = [Unlink ''T/dump_4000.ts'', Notify replay_saved]
   \<and> snd (trimExit (Some 0) (Some 0) some_job recording_state)
     = [Unlink ''T/dump_4000.ts'', Notify ''Replay save failed: output file is empty.'',
        Unlink ''V/replay.mp4'']"
  using extract_exit_skips_validation [of True some_job recording_state]
  by (simp add: some_job_def)

section \<open>Saving the configuration while recording\<close>

text \<open>
  C1 fails on the code. The handler compares \<^verbatim>\<open>config\<close> with \<^verbatim>\<open>newConfig\<close> after
  \<^verbatim>\<open>Object.assign(config, newConfig)\<close>, so whenever \<^verbatim>\<open>newConfig\<close> carries both selectors,
  as every object the renderer sends does, the two are equal: the handler stores the
  new configuration and neither stops nor restarts the recorder, arms no timer and sends
  no state change, whatever the selectors were before.
\<close>

theorem saveConfig_never_restarts:
  "new_audioDevice nc = Some mic \<and> new_systemAudioDevice nc = Some sys \<longrightarrow>
     saveConfig nc s =
       (s\<lparr>config := assign (config s) nc\<rparr>,
        (if autoStart (assign (config s) nc) \<noteq> autoStart (config s)
         then [SetLoginItem (autoStart (assign (config s) nc))] else [])
        @ [WriteConfig (assign (config s) nc)])
     \<and> observed (snd (saveConfig nc s)) = []
     \<and> isRecording (fst (saveConfig nc s)) = isRecording s
     \<and> restartTimers (fst (saveConfig nc s)) = restartTimers s"
  by (simp add: saveConfig_def assign_def or_old_def observed_def Let_def)

theorem saveConfig_never_restarts_witness:
  "isRecording recording_state
   \<and> audioDevice (config recording_state) = ''Default''
   \<and> new_audioDevice mic_changed = Some ''Headset''
   \<and> new_systemAudioDevice mic_changed = Some ''Default''
   \<and> audioDevice (config (fst (saveConfig mic_changed recording_state))) = ''Headset''
   \<and> isRecording (fst (saveConfig mic_changed recording_state))
   \<and> restartTimers (fst (saveConfig mic_changed recording_state)) = 0
   \<and> observed (snd (saveConfig mic_changed recording_state)) = []"
proof -
  have a: "new_audioDevice mic_changed = Some ''Headset''
      \<and> new_systemAudioDevice mic_changed = Some ''Default''"
    by (simp add: mic_changed_def full_def recording_state_eval default_config_def)
  have b: "isRecording recording_state \<and> audioDevice (config recording_state) = ''Default''
      \<and> restartTimers recording_state = 0"
    by (simp add: recording_state_eval default_config_def)
  have c: "audioDevice (assign (config recording_state) mic_changed) = ''Headset''"
    using a by (simp add: assign_def or_old_def)
  have th: "saveConfig mic_changed recording_state =
       (recording_state\<lparr>config := assign (config recording_state) mic_changed\<rparr>,
        (if autoStart (assign (config recording_state) mic_changed)
            \<noteq> autoStart (config recording_state)
         then [SetLoginItem (autoStart (assign (config recording_state) mic_changed))] else [])
        @ [WriteConfig (assign (config recording_state) mic_changed)])
     \<and> observed (snd (saveConfig mic_changed recording_state)) = []
     \<and> isRecording (fst (saveConfig mic_changed recording_state)) = isRecording recording_state
     \<and> restartTimers (fst (saveConfig mic_changed recording_state))
         = restartTimers recording_state"
    using saveConfig_never_restarts [of mic_changed "''Headset''" "''Default''" recording_state] a
    by blast
  then have "fst (saveConfig mic_changed recording_state)
      = recording_state\<lparr>config := assign (config recording_state) mic_changed\<rparr>"
    by simp
  then have d: "audioDevice (config (fst (saveConfig mic_changed recording_state))) = ''Headset''"
    using c by simp
  have e: "isRecording (fst (saveConfig mic_changed recording_state))"
    using th b by blast
  have f: "restartTimers (fst (saveConfig mic_changed recording_state)) = 0"
    using th b by metis
  have g: "observed (snd (saveConfig mic_changed recording_state)) = []"
    using th by blast
  show ?thesis
    using a b d e f g by blast
qed

text \<open>
  Nor does anything follow later: no timer was armed, so the restart callback never runs,
  and the events after the save show the listener nothing.
\<close>

lemma nothing_follows_saveConfig:
  assumes "new_audioDevice nc = Some mic" and "new_systemAudioDevice nc = Some sys"
    and "restartTimers s = 0" and "killTimers s = 0"
  shows "observed (trace a [SaveConfig nc, KillTimeout, RestartTimeout tmp] s) = []"
    and "run a [SaveConfig nc, KillTimeout, RestartTimeout tmp] s
           = s\<lparr>config := assign (config s) nc\<rparr>"
  using assms
  by (simp_all add: saveConfig_def assign_def or_old_def observed_def Let_def)

text \<open>
  The restart is reached only with an object that lacks a selector. Then the recorder is
  stopped once and one timer is armed, whose callback calls \<^verbatim>\<open>startRecording\<close>.
\<close>

lemma saveConfig_restart_branch:
  assumes "isRecording s" and "new_audioDevice nc = None \<or> new_systemAudioDevice nc = None"
  shows "saveConfig nc s =
     (let stopped = stopRecording (s\<lparr>config := assign (config s) nc\<rparr>)
      in ((fst stopped)\<lparr>restartTimers := Suc (restartTimers s)\<rparr>,
          (if autoStart (assign (config s) nc) \<noteq> autoStart (config s)
           then [SetLoginItem (autoStart (assign (config s) nc))] else [])
          @ snd stopped
          @ [SetTimeout 3000 RestartTimer, WriteConfig (config (fst stopped))]))"
  using assms by (auto simp: saveConfig_def stopRecording_def Let_def)

end
